theory Spec2Isabelle
  imports Complex_Main "HOL-Library.Sublist"
begin

section \<open>Python strings\<close>

text \<open>
  File names, labels, table keys and URLs are Python \<open>str\<close> values, modelled as
  \<open>string\<close>.  Only the ASCII letters have a case here: \<open>str.upper\<close> maps
  \<open>a\<close>..\<open>z\<close> to \<open>A\<close>..\<open>Z\<close> and leaves every other character alone.
\<close>

definition upper_char :: "char \<Rightarrow> char" where
  "upper_char c =
     (case map_of (zip ''abcdefghijklmnopqrstuvwxyz'' ''ABCDEFGHIJKLMNOPQRSTUVWXYZ'') c of
        None \<Rightarrow> c
      | Some u \<Rightarrow> u)"

definition upper :: "string \<Rightarrow> string" where
  "upper s = map upper_char s"

text \<open>\<open>k in s\<close> on strings: \<open>k\<close> occurs in \<open>s\<close> as a contiguous substring.\<close>

fun str_in :: "string \<Rightarrow> string \<Rightarrow> bool" where
  "str_in k [] = (k = [])"
| "str_in k (c # cs) = (prefix k (c # cs) \<or> str_in k cs)"

text \<open>\<open>s.endswith(e)\<close> and \<open>s.startswith(p)\<close>.\<close>

definition endswith :: "string \<Rightarrow> string \<Rightarrow> bool" where
  "endswith s e = prefix (rev e) (rev s)"

definition startswith :: "string \<Rightarrow> string \<Rightarrow> bool" where
  "startswith s p = prefix p s"

text \<open>\<open>s.rstrip('/')\<close>: every trailing slash is removed.\<close>

definition rstrip_slash :: "string \<Rightarrow> string" where
  "rstrip_slash s = rev (dropWhile (\<lambda>c. c = CHR ''/'') (rev s))"

text \<open>
  \<open>split_first sep s\<close> cuts \<open>s\<close> at the leftmost occurrence of \<open>sep\<close>: the text before
  it and the text after it, or \<open>None\<close> when \<open>sep\<close> does not occur.  This is
  \<open>s.split(sep, 1)\<close> for a separator that occurs.
\<close>

fun split_first :: "string \<Rightarrow> string \<Rightarrow> (string \<times> string) option" where
  "split_first sep [] = (if sep = [] then Some ([], []) else None)"
| "split_first sep (c # cs) =
     (if prefix sep (c # cs) then Some ([], drop (length sep) (c # cs))
      else map_option (\<lambda>(a, b). (c # a, b)) (split_first sep cs))"

text \<open>\<open>s.split(sep)[0]\<close>: the whole string when \<open>sep\<close> does not occur.\<close>

definition split_head :: "string \<Rightarrow> string \<Rightarrow> string" where
  "split_head sep s = (case split_first sep s of None \<Rightarrow> s | Some (a, b) \<Rightarrow> a)"

text \<open>
  \<open>s.split(sep)[1]\<close>: the text between the first and the second occurrence of
  \<open>sep\<close>; an \<open>IndexError\<close> (here \<open>None\<close>) when \<open>sep\<close> does not occur.
\<close>

definition split_second :: "string \<Rightarrow> string \<Rightarrow> string option" where
  "split_second sep s =
     (case split_first sep s of
        None \<Rightarrow> None
      | Some (a, rest) \<Rightarrow> Some (split_head sep rest))"

section \<open>The multiplier table\<close>

text \<open>
  \<open>QUANT_MULTIPLIERS\<close> is read from \<open>quant_multipliers.json\<close> when the module is
  loaded.  The file is not part of the sources, so the table is a parameter of every
  function that reads it: the list of its items in the order of the file, which is the
  order in which Python iterates the dictionary.  Where a result depends only on
  which key is chosen, on comparisons and on sums of sizes, Python's floats are taken
  as real numbers (\<open>quant_table\<close>).  Where the returned number itself or the outcome
  of a rounded comparison is at stake, in the estimator and in the selector, the
  arithmetic is that of the interpreter: binary64, below.
\<close>

type_synonym quant_table = "(string \<times> real) list"

section \<open>Binary64 arithmetic\<close>

text \<open>
  A Python \<open>float\<close> is an IEEE 754 binary64 number.  \<open>Fin m e\<close> is the finite number
  \<open>m\<close> times two to the power \<open>e\<close>, kept with \<open>m\<close> odd (or \<open>Fin 0 0\<close>), so that
  equal numbers are equal terms; zero has no sign here.  Every operation computes
  the exact result and rounds it once, to the nearest representable number, ties to
  the even significand: 53 bits, exponents down to \<open>-1074\<close> (gradual underflow), and
  infinity once the rounded magnitude reaches two to the power 1024.
\<close>

datatype f64 = Fin int int | PosInf | NegInf | NaN

text \<open>\<open>int.bit_length\<close> of a positive integer.\<close>

function bit_length :: "int \<Rightarrow> nat" where
  "bit_length n = (if n \<le> 0 then 0 else Suc (bit_length (n div 2)))"
  by pat_completeness auto
termination
  by (relation "measure nat") auto

declare bit_length.simps [simp del]

text \<open>\<open>m\<close> divided by two to the power \<open>k\<close>, rounded to the nearest integer, ties to even.\<close>

definition rne :: "int \<Rightarrow> nat \<Rightarrow> int" where
  "rne m k =
     (let q = m div 2 ^ k;
          r = m mod 2 ^ k
      in if 2 * r > 2 ^ k \<or> (2 * r = 2 ^ k \<and> odd q) then q + 1 else q)"

function strip_zeros :: "int \<Rightarrow> int \<Rightarrow> int \<times> int" where
  "strip_zeros m e =
     (if m = 0 then (0, 0)
      else if even m then strip_zeros (m div 2) (e + 1)
      else (m, e))"
  by pat_completeness auto
termination
  by (relation "measure (\<lambda>(m, e). nat \<bar>m\<bar>)") auto

declare strip_zeros.simps [simp del]

text \<open>The binary64 number nearest to the exact value \<open>m\<close> times two to the power \<open>e\<close>.\<close>

definition round_f64 :: "int \<Rightarrow> int \<Rightarrow> f64" where
  "round_f64 m e =
     (let k = max (int (bit_length \<bar>m\<bar>) - 53) (- 1074 - e);
          m' = (if k > 0 then rne m (nat k) else m);
          e' = (if k > 0 then e + k else e)
      in if int (bit_length \<bar>m'\<bar>) + e' > 1024
         then (if m > 0 then PosInf else NegInf)
         else case strip_zeros m' e' of (a, b) \<Rightarrow> Fin a b)"

definition inf_of_sign :: "bool \<Rightarrow> f64" where
  "inf_of_sign positive = (if positive then PosInf else NegInf)"

text \<open>\<open>x * y\<close> and \<open>x + y\<close> on floats.\<close>

definition fmul :: "f64 \<Rightarrow> f64 \<Rightarrow> f64" where
  "fmul x y =
     (case (x, y) of
        (NaN, _) \<Rightarrow> NaN
      | (_, NaN) \<Rightarrow> NaN
      | (Fin m1 e1, Fin m2 e2) \<Rightarrow> round_f64 (m1 * m2) (e1 + e2)
      | (Fin m e, PosInf) \<Rightarrow> (if m = 0 then NaN else inf_of_sign (m > 0))
      | (Fin m e, NegInf) \<Rightarrow> (if m = 0 then NaN else inf_of_sign (m < 0))
      | (PosInf, Fin m e) \<Rightarrow> (if m = 0 then NaN else inf_of_sign (m > 0))
      | (NegInf, Fin m e) \<Rightarrow> (if m = 0 then NaN else inf_of_sign (m < 0))
      | (PosInf, PosInf) \<Rightarrow> PosInf
      | (PosInf, NegInf) \<Rightarrow> NegInf
      | (NegInf, PosInf) \<Rightarrow> NegInf
      | (NegInf, NegInf) \<Rightarrow> PosInf)"

definition fadd :: "f64 \<Rightarrow> f64 \<Rightarrow> f64" where
  "fadd x y =
     (case (x, y) of
        (NaN, _) \<Rightarrow> NaN
      | (_, NaN) \<Rightarrow> NaN
      | (Fin m1 e1, Fin m2 e2) \<Rightarrow>
          (let e = min e1 e2
           in round_f64 (m1 * 2 ^ nat (e1 - e) + m2 * 2 ^ nat (e2 - e)) e)
      | (PosInf, NegInf) \<Rightarrow> NaN
      | (NegInf, PosInf) \<Rightarrow> NaN
      | (PosInf, _) \<Rightarrow> PosInf
      | (NegInf, _) \<Rightarrow> NegInf
      | (_, PosInf) \<Rightarrow> PosInf
      | (_, NegInf) \<Rightarrow> NegInf)"

text \<open>\<open>x <= y\<close> and \<open>x < y\<close> on floats: exact, and false when either side is NaN.\<close>

definition f_le :: "f64 \<Rightarrow> f64 \<Rightarrow> bool" where
  "f_le x y =
     (case (x, y) of
        (NaN, _) \<Rightarrow> False
      | (_, NaN) \<Rightarrow> False
      | (Fin m1 e1, Fin m2 e2) \<Rightarrow>
          (let e = min e1 e2 in m1 * 2 ^ nat (e1 - e) \<le> m2 * 2 ^ nat (e2 - e))
      | (NegInf, _) \<Rightarrow> True
      | (_, PosInf) \<Rightarrow> True
      | (PosInf, _) \<Rightarrow> False
      | (_, NegInf) \<Rightarrow> False)"

definition f_lt :: "f64 \<Rightarrow> f64 \<Rightarrow> bool" where
  "f_lt x y =
     (case (x, y) of
        (NaN, _) \<Rightarrow> False
      | (_, NaN) \<Rightarrow> False
      | (Fin m1 e1, Fin m2 e2) \<Rightarrow>
          (let e = min e1 e2 in m1 * 2 ^ nat (e1 - e) < m2 * 2 ^ nat (e2 - e))
      | (PosInf, _) \<Rightarrow> False
      | (_, NegInf) \<Rightarrow> False
      | (NegInf, _) \<Rightarrow> True
      | (_, PosInf) \<Rightarrow> True)"

text \<open>\<open>max(a, b)\<close>: the first argument unless the second is greater.\<close>

definition py_max :: "f64 \<Rightarrow> f64 \<Rightarrow> f64" where
  "py_max a b = (if f_lt a b then b else a)"

text \<open>
  The literals \<open>0.1\<close> and \<open>2.5\<close>, and \<open>n / (1024 ** 3)\<close> for an integer \<open>n\<close>: the
  correctly rounded quotient, or an \<open>OverflowError\<close> (here \<open>None\<close>) when it is too
  large for a float.
\<close>

definition lit_0_1 :: f64 where
  "lit_0_1 = Fin 3602879701896397 (- 55)"

definition lit_2_5 :: f64 where
  "lit_2_5 = Fin 5 (- 1)"

definition int_div_gib :: "int \<Rightarrow> f64 option" where
  "int_div_gib n = (case round_f64 n (- 30) of Fin m e \<Rightarrow> Some (Fin m e) | _ \<Rightarrow> None)"

text \<open>The real number a finite float stands for.\<close>

definition valof :: "f64 \<Rightarrow> real option" where
  "valof x =
     (case x of
        Fin m e \<Rightarrow> Some (if e \<ge> 0 then of_int m * 2 ^ nat e else of_int m / 2 ^ nat (- e))
      | _ \<Rightarrow> None)"

text \<open>
  The table as the interpreter holds it: every multiplier a float.  A multiplier
  written as an integer in the file is converted to binary64 when it meets a float,
  and that float is the value held here.
\<close>

type_synonym quant_table_f64 = "(string \<times> f64) list"

section \<open>Selecting a quantization\<close>

definition too_large_msg :: string where
  "too_large_msg = ''Model too large for available memory''"

definition get_best_quantization ::
  "quant_table_f64 \<Rightarrow> f64 \<Rightarrow> f64 \<Rightarrow> f64 \<Rightarrow> string list \<Rightarrow> string" where
  "get_best_quantization QUANT_MULTIPLIERS available_ram_gb available_vram_gb
       model_size_gb available_quants =
     (let max_memory = py_max available_ram_gb available_vram_gb;
          filtered_quants = filter (\<lambda>(k, v). k \<in> set available_quants) QUANT_MULTIPLIERS;
          suitable_quants =
            map fst (filter (\<lambda>(quant, multiplier).
                               f_le (fmul model_size_gb (fadd multiplier lit_0_1)) max_memory)
                            filtered_quants)
      in if suitable_quants \<noteq> [] then last suitable_quants else too_large_msg)"

section \<open>Estimating the memory a file needs\<close>

definition estimate_ram_requirement :: "quant_table \<Rightarrow> string \<Rightarrow> real \<Rightarrow> real" where
  "estimate_ram_requirement QUANT_MULTIPLIERS file_name file_size_bytes =
     (let size_gb = file_size_bytes / 1024 ^ 3;
          file_upper = upper file_name;
          overhead_multiplier =
            (case find (\<lambda>(quant, mult). str_in quant file_upper) QUANT_MULTIPLIERS of
               None \<Rightarrow> 2.5
             | Some (quant, mult) \<Rightarrow> mult);
          base_ram = size_gb * overhead_multiplier;
          attention_overhead = size_gb * 0.1
      in base_ram + attention_overhead)"

text \<open>
  The same function as the interpreter computes it on an integer byte count: the two
  products and their sum are each rounded to binary64.
\<close>

definition estimate_ram_requirement_f64 ::
  "quant_table_f64 \<Rightarrow> string \<Rightarrow> int \<Rightarrow> f64 option" where
  "estimate_ram_requirement_f64 QUANT_MULTIPLIERS file_name file_size_bytes =
     (case int_div_gib file_size_bytes of
        None \<Rightarrow> None
      | Some size_gb \<Rightarrow>
          (let file_upper = upper file_name;
               overhead_multiplier =
                 (case find (\<lambda>(quant, mult). str_in quant file_upper) QUANT_MULTIPLIERS of
                    None \<Rightarrow> lit_2_5
                  | Some (quant, mult) \<Rightarrow> mult);
               base_ram = fmul size_gb overhead_multiplier;
               attention_overhead = fmul size_gb lit_0_1
           in Some (fadd base_ram attention_overhead)))"

section \<open>Classifying the estimate\<close>

text \<open>
  \<open>get_performance_label\<close> returns a marked-up text: one of four fixed headings
  followed by the two figures that were compared.  The heading is the datatype
  \<open>perf\<close>, \<open>label_markup\<close> is its text.  The formatted figures are left out; the
  text that carries them (\<open>needs\<close>, the two numbers with \<open>GB\<close>, \<open>RAM available\<close> or
  \<open>VRAM available\<close>) contains none of the words the analyzer later looks for.
\<close>

datatype perf = GPU_Ready | Too_large | Will_be_slow | Ready

fun label_markup :: "perf \<Rightarrow> string" where
  "label_markup GPU_Ready = ''[green]GPU-Ready[/green]''"
| "label_markup Too_large = ''[red]Too large[/red]''"
| "label_markup Will_be_slow = ''[yellow]Will be slow[/yellow]''"
| "label_markup Ready = ''[green]Ready[/green]''"

definition get_performance_label :: "real \<Rightarrow> real \<Rightarrow> real \<Rightarrow> perf" where
  "get_performance_label estimated_ram_needed user_ram_gb vram_gb =
     (if vram_gb \<ge> estimated_ram_needed then GPU_Ready
      else if estimated_ram_needed > user_ram_gb then Too_large
      else if estimated_ram_needed > user_ram_gb * 0.5 then Will_be_slow
      else Ready)"

section \<open>Grouping split files\<close>

text \<open>
  A sibling is one file of a repository listing: \<open>rfilename\<close> and \<open>size\<close> (in bytes;
  the field is \<open>size_b\<close> here).  The grouper returns a dictionary from label to a
  dictionary with the entries \<open>'size'\<close> and \<open>'files'\<close>: the record \<open>group\<close>, and a list
  of pairs in insertion order, which is the order Python iterates it in.
\<close>

record sibling =
  rfilename :: string
  size_b :: int

record group =
  size_g :: real
  files_g :: "sibling list"

type_synonym grouped = "(string \<times> group) list"

text \<open>The \<open>if\<close>/\<open>elif\<close> chain that picks the size variant.\<close>

definition size_variant_of :: "string \<Rightarrow> string" where
  "size_variant_of filename_upper =
     (if str_in ''_L'' filename_upper then ''_L''
      else if str_in ''_M'' filename_upper then ''_M''
      else if str_in ''_S'' filename_upper then ''_S''
      else if str_in ''_XS'' filename_upper then ''_XS''
      else if str_in ''_XXS'' filename_upper then ''_XXS''
      else [])"

text \<open>
  The inner loop over the table's keys, left at the first key that occurs in the
  uppercased file name: \<open>quant_type\<close> stays \<open>None\<close> when no key occurs.
\<close>

definition quant_type_of :: "quant_table \<Rightarrow> string \<Rightarrow> string option" where
  "quant_type_of QUANT_MULTIPLIERS filename_upper =
     (case find (\<lambda>(base_quant, mult). str_in base_quant filename_upper) QUANT_MULTIPLIERS of
        None \<Rightarrow> None
      | Some (base_quant, mult) \<Rightarrow> Some (base_quant @ size_variant_of filename_upper))"

text \<open>
  One round of the outer loop.  \<open>if quant_type\<close> is Python's truth test: \<open>None\<close> and
  the empty string both fail it.
\<close>

definition group_file :: "quant_table \<Rightarrow> grouped \<Rightarrow> sibling \<Rightarrow> grouped" where
  "group_file QUANT_MULTIPLIERS grouped f =
     (case quant_type_of QUANT_MULTIPLIERS (upper (rfilename f)) of
        None \<Rightarrow> grouped
      | Some quant_type \<Rightarrow>
          if quant_type = [] then grouped
          else
            let grouped1 =
                  (if quant_type \<notin> set (map fst grouped)
                   then grouped @ [(quant_type, \<lparr>size_g = 0, files_g = []\<rparr>)]
                   else grouped)
            in map (\<lambda>(k, g).
                      if k = quant_type
                      then (k, \<lparr>size_g = size_g g + of_int (size_b f),
                                files_g = files_g g @ [f]\<rparr>)
                      else (k, g))
                   grouped1)"

definition group_split_files :: "quant_table \<Rightarrow> sibling list \<Rightarrow> grouped" where
  "group_split_files QUANT_MULTIPLIERS files = foldl (group_file QUANT_MULTIPLIERS) [] files"

text \<open>
  The label a file is stored under in one round of that loop, or \<open>None\<close> when the
  round leaves the dictionary as it is: the outcome of the truth test on \<open>quant_type\<close>.
\<close>

definition kept_label :: "quant_table \<Rightarrow> sibling \<Rightarrow> string option" where
  "kept_label QUANT_MULTIPLIERS f =
     (case quant_type_of QUANT_MULTIPLIERS (upper (rfilename f)) of
        None \<Rightarrow> None
      | Some quant_type \<Rightarrow> if quant_type = [] then None else Some quant_type)"

text \<open>
  What the loop has built after all its rounds, said over the whole input: the files
  stored under a label, the group they make, and a list of labels in the order of
  their first occurrence.  The grouper is compared with these below.
\<close>

definition members :: "quant_table \<Rightarrow> sibling list \<Rightarrow> string \<Rightarrow> sibling list" where
  "members QM fs q = filter (\<lambda>f. kept_label QM f = Some q) fs"

definition group_of :: "quant_table \<Rightarrow> sibling list \<Rightarrow> string \<Rightarrow> group" where
  "group_of QM fs q =
     \<lparr>size_g = sum_list (map (\<lambda>f. of_int (size_b f)) (members QM fs q)),
      files_g = members QM fs q\<rparr>"

definition first_seen :: "'a list \<Rightarrow> 'a list" where
  "first_seen xs = rev (remdups (rev xs))"

section \<open>Analysing a repository\<close>

text \<open>
  The analyzer talks to the model hub and prints to the console.  The hub is a
  parameter \<open>api\<close>: the listing of a repository, or \<open>None\<close> when \<open>model_info\<close> raises
  (the repository does not exist or is not public).  The memory of the machine
  (\<open>get_system_memory\<close>) is the pair of parameters \<open>ram_gb\<close>, \<open>vram_gb\<close>.  The result is
  the list of the effects of one run, in order: every call of \<open>model_info\<close> (with the
  repository id and the flag \<open>files_metadata\<close>), every message, every rendered panel,
  and an exception that nothing catches.  The spinner is left out.
\<close>

datatype py_error = IndexError | ValueError | LookupFailed

datatype message = Invalid_url | Model_not_found | No_gguf_files | No_model_files

datatype event =
    Model_info string bool
  | Print message
  | File_panel string real real real perf
  | Quant_panel real real "(string \<times> real \<times> perf) list" string
  | Repo_panel real real real perf
  | Uncaught py_error

text \<open>\<open>min(xs, key=...)\<close> and \<open>max(xs, key=...)\<close>: the first least and the first
  greatest element; a \<open>ValueError\<close> (here \<open>None\<close>) on the empty list.\<close>

fun min_by :: "('a \<Rightarrow> real) \<Rightarrow> 'a list \<Rightarrow> 'a option" where
  "min_by key [] = None"
| "min_by key (x # xs) = Some (foldl (\<lambda>best y. if key y < key best then y else best) x xs)"

fun max_by :: "('a \<Rightarrow> real) \<Rightarrow> 'a list \<Rightarrow> 'a option" where
  "max_by key [] = None"
| "max_by key (x # xs) = Some (foldl (\<lambda>best y. if key y > key best then y else best) x xs)"

type_synonym quant_row = "string \<times> real \<times> perf"

definition row_size :: "quant_row \<Rightarrow> real" where
  "row_size x = fst (snd x)"

definition row_perf :: "quant_row \<Rightarrow> perf" where
  "row_perf x = snd (snd x)"

text \<open>The loop over the groups, and the sort of the rows that are not too large.\<close>

definition classify_group :: "quant_table \<Rightarrow> real \<Rightarrow> real \<Rightarrow> string \<times> group \<Rightarrow> quant_row" where
  "classify_group QUANT_MULTIPLIERS ram_gb vram_gb qg =
     (let quant_type = fst qg;
          file_size_gb = size_g (snd qg) / 1024 ^ 3;
          estimated_ram_needed =
            estimate_ram_requirement QUANT_MULTIPLIERS quant_type (size_g (snd qg));
          performance_label = get_performance_label estimated_ram_needed ram_gb vram_gb
      in (quant_type, file_size_gb, performance_label))"

definition viable_quants_of :: "quant_table \<Rightarrow> real \<Rightarrow> real \<Rightarrow> grouped \<Rightarrow> quant_row list" where
  "viable_quants_of QUANT_MULTIPLIERS ram_gb vram_gb grouped_files =
     sort_key row_size
       (filter (\<lambda>x. \<not> str_in ''Too large'' (label_markup (row_perf x)))
          (map (classify_group QUANT_MULTIPLIERS ram_gb vram_gb) grouped_files))"

text \<open>The choice of the recommended quantization among the viable rows.\<close>

definition recommended_of :: "quant_row list \<Rightarrow> py_error + string" where
  "recommended_of viable_quants =
     (let gpu_ready_quants =
            filter (\<lambda>x. str_in ''GPU-Ready'' (label_markup (row_perf x))) viable_quants;
          ready_quants =
            filter (\<lambda>x. str_in ''Ready'' (label_markup (row_perf x))
                        \<and> \<not> str_in ''GPU-Ready'' (label_markup (row_perf x))) viable_quants;
          slow_quants =
            filter (\<lambda>x. str_in ''Will be slow'' (label_markup (row_perf x))) viable_quants;
          chosen =
            (if list_all (\<lambda>x. str_in ''Will be slow'' (label_markup (row_perf x))) viable_quants
             then min_by row_size viable_quants
             else if gpu_ready_quants \<noteq> [] then max_by row_size gpu_ready_quants
             else if ready_quants \<noteq> [] then max_by row_size ready_quants
             else min_by row_size slow_quants)
      in case chosen of None \<Rightarrow> Inl ValueError | Some x \<Rightarrow> Inr (fst x))"

text \<open>The branch for plain weight files (the \<open>else\<close> of \<open>if viable_quants\<close>).\<close>

definition plain_weights ::
  "quant_table \<Rightarrow> real \<Rightarrow> real \<Rightarrow> sibling list \<Rightarrow> string \<Rightarrow> string option \<Rightarrow> event list" where
  "plain_weights QUANT_MULTIPLIERS ram_gb vram_gb all_files repo_id subfolder =
     (let extensions = [''.safetensors'', ''.bin''];
          counted =
            filter (\<lambda>f. list_ex (\<lambda>ext. endswith (rfilename f) ext) extensions
                        \<and> \<not> (case subfolder of
                                 None \<Rightarrow> False
                               | Some sub \<Rightarrow> sub \<noteq> [] \<and> \<not> startswith (rfilename f) sub))
                   all_files;
          total_size_bytes = sum_list (map size_b counted)
      in if total_size_bytes = 0 then [Print No_model_files]
         else
           let estimated_ram_needed =
                 estimate_ram_requirement QUANT_MULTIPLIERS repo_id (of_int total_size_bytes);
               performance_label = get_performance_label estimated_ram_needed ram_gb vram_gb;
               total_size_gb = of_int total_size_bytes / 1024 ^ 3
           in [Repo_panel total_size_gb ram_gb vram_gb performance_label])"

text \<open>
  The analysis of the whole repository: everything from \<open>subfolder = None\<close> to the end
  of the function.  \<open>repo_id\<close> is the value the variable has at that point.
\<close>

definition analyze_repository ::
  "quant_table \<Rightarrow> (string \<Rightarrow> sibling list option) \<Rightarrow> real \<Rightarrow> real \<Rightarrow> string \<Rightarrow> string
     \<Rightarrow> event list" where
  "analyze_repository QUANT_MULTIPLIERS api ram_gb vram_gb path_part repo_id0 =
     (case (if str_in ''/tree/main/'' path_part
            then map_option (\<lambda>(a, b). (a, Some b)) (split_first ''/tree/main/'' path_part)
            else Some (repo_id0, None)) of
        None \<Rightarrow> [Uncaught ValueError]
      | Some (repo_id, subfolder) \<Rightarrow>
          (case api repo_id of
             None \<Rightarrow> [Model_info repo_id True, Uncaught LookupFailed]
           | Some all_files \<Rightarrow>
               Model_info repo_id True #
               (if str_in ''GGUF'' (upper repo_id) then
                  (let gguf_files = filter (\<lambda>f. endswith (rfilename f) ''.gguf'') all_files
                   in if gguf_files = [] then [Print No_gguf_files]
                      else
                        let grouped_files = group_split_files QUANT_MULTIPLIERS gguf_files;
                            viable_quants =
                              viable_quants_of QUANT_MULTIPLIERS ram_gb vram_gb grouped_files
                        in if viable_quants \<noteq> [] then
                             (case recommended_of viable_quants of
                                Inl e \<Rightarrow> [Uncaught e]
                              | Inr recommended \<Rightarrow>
                                  [Quant_panel ram_gb vram_gb viable_quants recommended])
                           else plain_weights QUANT_MULTIPLIERS ram_gb vram_gb all_files
                                  repo_id subfolder)
                else plain_weights QUANT_MULTIPLIERS ram_gb vram_gb all_files
                       repo_id subfolder)))"

text \<open>The repository id that the first lookup uses.\<close>

definition repo_id_of :: "string \<Rightarrow> string" where
  "repo_id_of path_part =
     (if str_in ''/tree/main/'' path_part then split_head ''/tree/main/'' path_part
      else if str_in ''/blob/main/'' path_part then split_head ''/blob/main/'' path_part
      else path_part)"

definition analyze_huggingface_url ::
  "quant_table \<Rightarrow> (string \<Rightarrow> sibling list option) \<Rightarrow> real \<Rightarrow> real \<Rightarrow> string \<Rightarrow> event list" where
  "analyze_huggingface_url QUANT_MULTIPLIERS api ram_gb vram_gb repo_url =
     (if \<not> str_in ''huggingface.co/'' repo_url then [Print Invalid_url]
      else
        case split_second ''huggingface.co/'' (rstrip_slash repo_url) of
          None \<Rightarrow> [Uncaught IndexError]
        | Some path_part \<Rightarrow>
            let repo_id = repo_id_of path_part
            in case api repo_id of
                 None \<Rightarrow> [Model_info repo_id False, Print Model_not_found]
               | Some info \<Rightarrow>
                   Model_info repo_id False #
                   (if str_in ''/blob/main/'' path_part then
                      (case split_first ''/blob/main/'' path_part of
                         None \<Rightarrow> [Uncaught ValueError]
                       | Some (repo_id, file_path) \<Rightarrow>
                           (case api repo_id of
                              None \<Rightarrow> [Model_info repo_id True, Uncaught LookupFailed]
                            | Some all_files \<Rightarrow>
                                Model_info repo_id True #
                                (case find (\<lambda>f. rfilename f = file_path) all_files of
                                   Some target_file \<Rightarrow>
                                     (let file_size_gb = of_int (size_b target_file) / 1024 ^ 3;
                                          estimated_ram_needed =
                                            estimate_ram_requirement QUANT_MULTIPLIERS file_path
                                              (of_int (size_b target_file));
                                          performance_label =
                                            get_performance_label estimated_ram_needed
                                              ram_gb vram_gb
                                      in [File_panel file_path file_size_gb ram_gb vram_gb
                                            performance_label])
                                 | None \<Rightarrow>
                                     analyze_repository QUANT_MULTIPLIERS api ram_gb vram_gb
                                       path_part repo_id)))
                    else analyze_repository QUANT_MULTIPLIERS api ram_gb vram_gb
                           path_part repo_id))"

section \<open>Facts about the string operations\<close>

lemma str_in_iff_sublist: "str_in k s \<longleftrightarrow> sublist k s"
  by (induction s) (auto simp: sublist_Cons_right)

lemma str_in_Nil [simp]: "str_in [] s"
  by (cases s) simp_all

lemma find_split_first:
  "find P (pre @ x # post) = Some x" if "\<forall>y \<in> set pre. \<not> P y" and "P x"
  using that by (induction pre) auto

lemma find_none_iff: "find P xs = None \<longleftrightarrow> (\<forall>y \<in> set xs. \<not> P y)"
  by (induction xs) auto

section \<open>The estimator\<close>

text \<open>The literal \<open>0.1\<close> is the binary64 number nearest to one tenth.\<close>

lemma lit_0_1_nearest:
  "valof lit_0_1 = Some (3602879701896397 / 2 ^ 55)
   \<and> \<bar>3602879701896397 / 2 ^ 55 - 1 / 10 :: real\<bar> < 1 / 2 ^ 57"
  by (simp add: valof_def lit_0_1_def)

text \<open>
  C3 as stated does not hold.  The estimator adds two rounded products; the result is
  not always the size in GB times \<open>m + 0.1\<close>.  For the multiplier \<open>0.25\<close> and 41 GiB it
  returns \<open>14.350000000000001\<close> (the first number below), while 41 times
  \<open>0.25 + 0.1\<close> is \<open>14.35\<close> in binary64 (the second) and in exact arithmetic.  With no
  matching key and 3 GiB it returns \<open>7.8\<close>, while 3 times \<open>2.6\<close> is
  \<open>7.800000000000001\<close> in binary64; \<open>Fin 5854679515581645 (- 51)\<close> is the float \<open>2.6\<close>.
\<close>

theorem estimate_rounding_counterexample:
  "estimate_ram_requirement_f64 [(''Q'', Fin 1 (- 2))] ''model-q.gguf'' (41 * 2 ^ 30)
     = Some (Fin 2019582957898957 (- 47))
   \<and> fmul (Fin 41 0) (fadd (Fin 1 (- 2)) lit_0_1) = Fin 8078331831595827 (- 49)
   \<and> valof (Fin 2019582957898957 (- 47)) \<noteq> Some (41 * (1 / 4 + 1 / 10))
   \<and> estimate_ram_requirement_f64 [(''Q'', Fin 1 (- 2))] ''readme'' (3 * 2 ^ 30)
     = Some (Fin 8782019273372467 (- 50))
   \<and> fmul (Fin 3 0) (Fin 5854679515581645 (- 51)) = Fin 2195504818343117 (- 48)
   \<and> valof (Fin 8782019273372467 (- 50)) \<noteq> Some (3 * (26 / 10))"
proof (intro conjI)
  show "estimate_ram_requirement_f64 [(''Q'', Fin 1 (- 2))] ''model-q.gguf'' (41 * 2 ^ 30)
     = Some (Fin 2019582957898957 (- 47))"
    by code_simp
  show "fmul (Fin 41 0) (fadd (Fin 1 (- 2)) lit_0_1) = Fin 8078331831595827 (- 49)"
    by code_simp
  show "valof (Fin 2019582957898957 (- 47)) \<noteq> Some (41 * (1 / 4 + 1 / 10))"
    by (simp add: valof_def)
  show "estimate_ram_requirement_f64 [(''Q'', Fin 1 (- 2))] ''readme'' (3 * 2 ^ 30)
     = Some (Fin 8782019273372467 (- 50))"
    by code_simp
  show "fmul (Fin 3 0) (Fin 5854679515581645 (- 51)) = Fin 2195504818343117 (- 48)"
    by code_simp
  show "valof (Fin 8782019273372467 (- 50)) \<noteq> Some (3 * (26 / 10))"
    by (simp add: valof_def)
qed

text \<open>
  C3, amended.  The estimator converts the byte count to GB, the correctly rounded
  quotient by \<open>1024 ** 3\<close>, and returns the binary64 sum of the two binary64 products
  of the size in GB with \<open>m\<close> and with \<open>0.1\<close>, where \<open>m\<close> is the multiplier of the first
  key of the table, in the table's order, that occurs in the uppercased label; when
  no key of the table occurs in it, \<open>m\<close> is \<open>2.5\<close>.
\<close>

theorem estimate_f64_first_matching_key:
  "(T = pre @ (k, m) # post \<longrightarrow>
      (\<forall>(k', m') \<in> set pre. \<not> str_in k' (upper label)) \<longrightarrow>
      str_in k (upper label) \<longrightarrow>
      estimate_ram_requirement_f64 T label bytes =
        map_option (\<lambda>size_gb. fadd (fmul size_gb m) (fmul size_gb lit_0_1)) (int_div_gib bytes))
   \<and> ((\<forall>(k', m') \<in> set T. \<not> str_in k' (upper label)) \<longrightarrow>
      estimate_ram_requirement_f64 T label bytes =
        map_option (\<lambda>size_gb. fadd (fmul size_gb lit_2_5) (fmul size_gb lit_0_1))
          (int_div_gib bytes))"
proof (intro conjI impI)
  assume T: "T = pre @ (k, m) # post"
    and pre: "\<forall>(k', m') \<in> set pre. \<not> str_in k' (upper label)"
    and k: "str_in k (upper label)"
  have "find (\<lambda>(quant, mult). str_in quant (upper label)) T = Some (k, m)"
    unfolding T using pre k by (intro find_split_first) auto
  then show "estimate_ram_requirement_f64 T label bytes =
        map_option (\<lambda>size_gb. fadd (fmul size_gb m) (fmul size_gb lit_0_1)) (int_div_gib bytes)"
    by (simp add: estimate_ram_requirement_f64_def split: option.splits)
next
  assume "\<forall>(k', m') \<in> set T. \<not> str_in k' (upper label)"
  then have "find (\<lambda>(quant, mult). str_in quant (upper label)) T = None"
    by (auto simp: find_none_iff)
  then show "estimate_ram_requirement_f64 T label bytes =
        map_option (\<lambda>size_gb. fadd (fmul size_gb lit_2_5) (fmul size_gb lit_0_1))
          (int_div_gib bytes)"
    by (simp add: estimate_ram_requirement_f64_def split: option.splits)
qed


text \<open>
  In the witness the multipliers are the floats \<open>1.2\<close> and \<open>1.5\<close>, the size is 2 GiB,
  and the results are the floats \<open>3.2\<close> and \<open>5.2\<close>.
\<close>

theorem estimate_f64_first_matching_key_witness:
  "estimate_ram_requirement_f64
       [(''Q4_K'', Fin 5404319552844595 (- 52)), (''Q8_0'', Fin 3 (- 1))]
       ''model-q8_0.gguf'' (2 * 2 ^ 30)
     = Some (Fin 3602879701896397 (- 50))
   \<and> estimate_ram_requirement_f64
       [(''Q4_K'', Fin 5404319552844595 (- 52)), (''Q8_0'', Fin 3 (- 1))]
       ''model.bin'' (2 * 2 ^ 30)
     = Some (Fin 5854679515581645 (- 50))"
proof
  let ?T = "[(''Q4_K'', Fin 5404319552844595 (- 52)), (''Q8_0'', Fin 3 (- 1))]"
  have eq: "?T = [(''Q4_K'', Fin 5404319552844595 (- 52))] @ (''Q8_0'', Fin 3 (- 1)) # []"
    by simp
  have pre: "\<forall>(k', m') \<in> set [(''Q4_K'', Fin 5404319552844595 (- 52))].
               \<not> str_in k' (upper ''model-q8_0.gguf'')"
    and hit: "str_in ''Q8_0'' (upper ''model-q8_0.gguf'')"
    by (simp_all add: upper_def upper_char_def)
  have val: "map_option (\<lambda>size_gb. fadd (fmul size_gb (Fin 3 (- 1))) (fmul size_gb lit_0_1))
               (int_div_gib (2 * 2 ^ 30)) = Some (Fin 3602879701896397 (- 50))"
    by code_simp
  from estimate_f64_first_matching_key
         [of ?T "[(''Q4_K'', Fin 5404319552844595 (- 52))]" "''Q8_0''" "Fin 3 (- 1)" "[]"
             "''model-q8_0.gguf''" "2 * 2 ^ 30",
          THEN conjunct1, THEN mp, OF eq, THEN mp, OF pre, THEN mp, OF hit]
  show "estimate_ram_requirement_f64 ?T ''model-q8_0.gguf'' (2 * 2 ^ 30)
          = Some (Fin 3602879701896397 (- 50))"
    by (simp only: val)
next
  let ?T = "[(''Q4_K'', Fin 5404319552844595 (- 52)), (''Q8_0'', Fin 3 (- 1))]"
  have none: "\<forall>(k', m') \<in> set ?T. \<not> str_in k' (upper ''model.bin'')"
    by (simp add: upper_def upper_char_def)
  have val: "map_option (\<lambda>size_gb. fadd (fmul size_gb lit_2_5) (fmul size_gb lit_0_1))
               (int_div_gib (2 * 2 ^ 30)) = Some (Fin 5854679515581645 (- 50))"
    by code_simp
  from estimate_f64_first_matching_key
         [of ?T _ _ _ _ "''model.bin''" "2 * 2 ^ 30", THEN conjunct2, THEN mp, OF none]
  show "estimate_ram_requirement_f64 ?T ''model.bin'' (2 * 2 ^ 30)
          = Some (Fin 5854679515581645 (- 50))"
    by (simp only: val)
qed

section \<open>The selector\<close>

text \<open>
  C4.  The selector walks the table in its own order, looks only at the keys that are
  among the candidates, keeps those for which the model size times \<open>multiplier + 0.1\<close>
  is at most the larger of RAM and VRAM, and returns the last one kept: the key after
  which no later entry of the table is kept.  When no entry is kept it returns the
  text that says the model is too large.  The sum, the product and the comparison are
  the interpreter's, in binary64: in the second run of the witness, 50 times
  \<open>1.0 + 0.1\<close> is \<open>55.00000000000001\<close>, which is not at most 55, and nothing is kept.
\<close>

theorem best_quantization_last_kept:
  "(T = pre @ (k, m) # post \<longrightarrow>
      k \<in> set quants \<longrightarrow>
      f_le (fmul size_gb (fadd m lit_0_1)) (py_max ram vram) \<longrightarrow>
      (\<forall>(k', m') \<in> set post.
         \<not> (k' \<in> set quants \<and> f_le (fmul size_gb (fadd m' lit_0_1)) (py_max ram vram))) \<longrightarrow>
      get_best_quantization T ram vram size_gb quants = k)
   \<and> ((\<forall>(k', m') \<in> set T.
         \<not> (k' \<in> set quants \<and> f_le (fmul size_gb (fadd m' lit_0_1)) (py_max ram vram))) \<longrightarrow>
      get_best_quantization T ram vram size_gb quants = too_large_msg)"
proof -
  let ?fits = "\<lambda>(quant, multiplier).
                 f_le (fmul size_gb (fadd multiplier lit_0_1)) (py_max ram vram)"
  let ?cand = "\<lambda>(k, v::f64). k \<in> set quants"
  let ?keep = "\<lambda>x. ?cand x \<and> ?fits x"
  have unfold: "get_best_quantization T ram vram size_gb quants =
      (if filter ?keep T \<noteq> [] then fst (last (filter ?keep T)) else too_large_msg)" for T
    by (simp add: get_best_quantization_def last_map)
  show ?thesis
  proof (intro conjI impI)
    assume T: "T = pre @ (k, m) # post" and "k \<in> set quants"
      and "f_le (fmul size_gb (fadd m lit_0_1)) (py_max ram vram)"
      and post: "\<forall>(k', m') \<in> set post.
         \<not> (k' \<in> set quants \<and> f_le (fmul size_gb (fadd m' lit_0_1)) (py_max ram vram))"
    from post have "filter ?keep post = []"
      by (auto simp: filter_empty_conv)
    with \<open>k \<in> set quants\<close> \<open>f_le (fmul size_gb (fadd m lit_0_1)) (py_max ram vram)\<close>
    have "filter ?keep T = filter ?keep pre @ [(k, m)]"
      by (simp add: T)
    then show "get_best_quantization T ram vram size_gb quants = k"
      by (simp add: unfold)
  next
    assume "\<forall>(k', m') \<in> set T.
         \<not> (k' \<in> set quants \<and> f_le (fmul size_gb (fadd m' lit_0_1)) (py_max ram vram))"
    then have "filter ?keep T = []"
      by (auto simp: filter_empty_conv)
    then show "get_best_quantization T ram vram size_gb quants = too_large_msg"
      by (simp add: unfold)
  qed
qed

text \<open>
  In the first run of the witness the multipliers are the floats \<open>1.1\<close>, \<open>1.5\<close> and
  \<open>1.2\<close>, the memory is 16 and 0, the size is 10: all three entries are kept and the
  last one in the table is returned.
\<close>

theorem best_quantization_last_kept_witness:
  "get_best_quantization
       [(''Q2_K'', Fin 2476979795053773 (- 51)), (''Q8_0'', Fin 3 (- 1)),
        (''Q4_K'', Fin 5404319552844595 (- 52))]
       (Fin 1 4) (Fin 0 0) (Fin 5 1) [''Q4_K'', ''Q8_0'', ''Q2_K''] = ''Q4_K''
   \<and> get_best_quantization [(''Q'', Fin 1 0)] (Fin 55 0) (Fin 0 0) (Fin 25 1) [''Q'']
     = too_large_msg"
proof
  let ?T = "[(''Q2_K'', Fin 2476979795053773 (- 51)), (''Q8_0'', Fin 3 (- 1)),
             (''Q4_K'', Fin 5404319552844595 (- 52))]"
  have eq: "?T = [(''Q2_K'', Fin 2476979795053773 (- 51)), (''Q8_0'', Fin 3 (- 1))]
                 @ (''Q4_K'', Fin 5404319552844595 (- 52)) # []"
    by simp
  have cand: "''Q4_K'' \<in> set [''Q4_K'', ''Q8_0'', ''Q2_K'']"
    by simp
  have fits: "f_le (fmul (Fin 5 1) (fadd (Fin 5404319552844595 (- 52)) lit_0_1))
                (py_max (Fin 1 4) (Fin 0 0))"
    by code_simp
  have post: "\<forall>(k', m') \<in> set ([] :: (string \<times> f64) list).
      \<not> (k' \<in> set [''Q4_K'', ''Q8_0'', ''Q2_K'']
          \<and> f_le (fmul (Fin 5 1) (fadd m' lit_0_1)) (py_max (Fin 1 4) (Fin 0 0)))"
    by simp
  from best_quantization_last_kept
         [of ?T "[(''Q2_K'', Fin 2476979795053773 (- 51)), (''Q8_0'', Fin 3 (- 1))]"
             "''Q4_K''" "Fin 5404319552844595 (- 52)" "[]" "[''Q4_K'', ''Q8_0'', ''Q2_K'']"
             "Fin 5 1" "Fin 1 4" "Fin 0 0",
          THEN conjunct1, THEN mp, OF eq, THEN mp, OF cand, THEN mp, OF fits, THEN mp, OF post]
  show "get_best_quantization ?T (Fin 1 4) (Fin 0 0) (Fin 5 1) [''Q4_K'', ''Q8_0'', ''Q2_K'']
          = ''Q4_K''" .
next
  have drop: "\<not> f_le (fmul (Fin 25 1) (fadd (Fin 1 0) lit_0_1)) (py_max (Fin 55 0) (Fin 0 0))"
    by code_simp
  then have none: "\<forall>(k', m') \<in> set [(''Q'', Fin 1 0)].
      \<not> (k' \<in> set [''Q'']
          \<and> f_le (fmul (Fin 25 1) (fadd m' lit_0_1)) (py_max (Fin 55 0) (Fin 0 0)))"
    by simp
  from best_quantization_last_kept
         [of "[(''Q'', Fin 1 0)]" _ _ _ _ "[''Q'']" "Fin 25 1" "Fin 55 0" "Fin 0 0",
          THEN conjunct2, THEN mp, OF none]
  show "get_best_quantization [(''Q'', Fin 1 0)] (Fin 55 0) (Fin 0 0) (Fin 25 1) [''Q'']
          = too_large_msg" .
qed

section \<open>The classifier\<close>

text \<open>
  C5.  The rules of the classifier, in order: GPU-Ready when the VRAM is at least the
  estimate, whatever the RAM; otherwise Too-large when the estimate exceeds the RAM;
  otherwise Will-be-slow when the estimate exceeds half the RAM; otherwise Ready.
\<close>

theorem performance_label_rules:
  "(vram \<ge> est \<longrightarrow> get_performance_label est ram vram = GPU_Ready)
   \<and> (\<not> vram \<ge> est \<longrightarrow> est > ram \<longrightarrow> get_performance_label est ram vram = Too_large)
   \<and> (\<not> vram \<ge> est \<longrightarrow> \<not> est > ram \<longrightarrow> est > ram * 0.5 \<longrightarrow>
        get_performance_label est ram vram = Will_be_slow)
   \<and> (\<not> vram \<ge> est \<longrightarrow> \<not> est > ram \<longrightarrow> \<not> est > ram * 0.5 \<longrightarrow>
        get_performance_label est ram vram = Ready)"
  by (simp add: get_performance_label_def)

theorem performance_label_rules_witness:
  "get_performance_label 5 16 8 = GPU_Ready
   \<and> get_performance_label 20 16 8 = Too_large
   \<and> get_performance_label 10 16 8 = Will_be_slow
   \<and> get_performance_label 8 16 0 = Ready"
  using performance_label_rules [of 5 8 16] performance_label_rules [of 20 8 16]
    performance_label_rules [of 10 8 16] performance_label_rules [of 8 0 16]
  by simp

section \<open>The analyzer: rejected URLs and failed lookups\<close>

lemma split_first_none_iff: "split_first sep s = None \<longleftrightarrow> \<not> str_in sep s"
  by (induction s) auto

text \<open>
  C9.  A string that does not contain \<open>huggingface.co/\<close> gets the invalid-URL message
  and nothing else: the run makes no call of \<open>model_info\<close>.  When the string contains
  it and the lookup of the repository id fails, the run is that one call followed by
  the model-not-found message: no estimate and no panel.
\<close>

theorem invalid_url_and_failed_lookup:
  "(\<not> str_in ''huggingface.co/'' url \<longrightarrow>
      analyze_huggingface_url QM api ram vram url = [Print Invalid_url])
   \<and> (str_in ''huggingface.co/'' url \<longrightarrow>
      split_second ''huggingface.co/'' (rstrip_slash url) = Some path_part \<longrightarrow>
      api (repo_id_of path_part) = None \<longrightarrow>
      analyze_huggingface_url QM api ram vram url =
        [Model_info (repo_id_of path_part) False, Print Model_not_found])"
  by (simp add: analyze_huggingface_url_def)

theorem invalid_url_and_failed_lookup_witness:
  "analyze_huggingface_url [(''Q4_K'', 1.2)]
       (map_of [(''org/model'', [\<lparr>rfilename = ''model.safetensors'', size_b = 2 * 1024 ^ 3\<rparr>])])
       16 0 ''https://example.com/org/model'' = [Print Invalid_url]
   \<and> analyze_huggingface_url [(''Q4_K'', 1.2)]
       (map_of [(''org/model'', [\<lparr>rfilename = ''model.safetensors'', size_b = 2 * 1024 ^ 3\<rparr>])])
       16 0 ''https://huggingface.co/org/other/'' =
         [Model_info ''org/other'' False, Print Model_not_found]"
proof
  have "\<not> str_in ''huggingface.co/'' ''https://example.com/org/model''"
    by simp
  then show "analyze_huggingface_url [(''Q4_K'', 1.2)]
       (map_of [(''org/model'', [\<lparr>rfilename = ''model.safetensors'', size_b = 2 * 1024 ^ 3\<rparr>])])
       16 0 ''https://example.com/org/model'' = [Print Invalid_url]"
    using invalid_url_and_failed_lookup [of "''https://example.com/org/model''"] by blast
next
  have 1: "str_in ''huggingface.co/'' ''https://huggingface.co/org/other/''"
    by simp
  have 2: "split_second ''huggingface.co/'' (rstrip_slash ''https://huggingface.co/org/other/'')
             = Some ''org/other''"
    by (simp add: split_second_def split_head_def rstrip_slash_def)
  have 3: "repo_id_of ''org/other'' = ''org/other''"
    by (simp add: repo_id_of_def)
  have 4: "map_of [(''org/model'', [\<lparr>rfilename = ''model.safetensors'', size_b = 2 * 1024 ^ 3\<rparr>])]
             (repo_id_of ''org/other'') = None"
    by (simp add: 3)
  from invalid_url_and_failed_lookup
         [of "''https://huggingface.co/org/other/''" _ _ _ _ "''org/other''"] 1 2 4
  have "analyze_huggingface_url [(''Q4_K'', 1.2)]
       (map_of [(''org/model'', [\<lparr>rfilename = ''model.safetensors'', size_b = 2 * 1024 ^ 3\<rparr>])])
       16 0 ''https://huggingface.co/org/other/'' =
         [Model_info (repo_id_of ''org/other'') False, Print Model_not_found]"
    by blast
  then show "analyze_huggingface_url [(''Q4_K'', 1.2)]
       (map_of [(''org/model'', [\<lparr>rfilename = ''model.safetensors'', size_b = 2 * 1024 ^ 3\<rparr>])])
       16 0 ''https://huggingface.co/org/other/'' =
         [Model_info ''org/other'' False, Print Model_not_found]"
    by (simp only: 3)
qed

section \<open>The analyzer: a blob URL whose file is not in the listing\<close>

text \<open>
  C1 as stated does not hold.  For a \<open>/blob/main/\<close> URL whose file is not in the
  listing, the run below prints no message at all and goes on to analyse the whole
  repository: it fetches the listing again and renders the panel for the plain weight
  files.
\<close>

theorem blob_missing_file_counterexample:
  "analyze_huggingface_url [(''Q4_K'', 1.2)]
       (map_of [(''org/model'', [\<lparr>rfilename = ''model.safetensors'', size_b = 2 * 1024 ^ 3\<rparr>])])
       16 0 ''https://huggingface.co/org/model/blob/main/missing.bin''
     = [Model_info ''org/model'' False, Model_info ''org/model'' True,
        Model_info ''org/model'' True, Repo_panel 2 16 0 Ready]"
  by (simp add: analyze_huggingface_url_def analyze_repository_def plain_weights_def
        split_second_def split_head_def rstrip_slash_def repo_id_of_def
        endswith_def startswith_def upper_def upper_char_def
        estimate_ram_requirement_def get_performance_label_def Let_def)

text \<open>
  C1, amended.  In the single-blob path, when the listing of the repository does not
  contain the requested path, the analyzer prints no not-found message and continues
  with the analysis of the whole repository, for the repository id in front of
  \<open>/blob/main/\<close>: the run is the two lookups made so far followed by the run of that
  analysis.  When the path has no \<open>/tree/main/\<close> part and the repository id does not
  contain \<open>GGUF\<close>, that analysis is one more lookup and the plain-weights estimate over
  the whole listing.
\<close>

theorem blob_missing_file_falls_through:
  "str_in ''huggingface.co/'' url \<longrightarrow>
   split_second ''huggingface.co/'' (rstrip_slash url) = Some path_part \<longrightarrow>
   split_first ''/blob/main/'' path_part = Some (repo_id, file_path) \<longrightarrow>
   api (repo_id_of path_part) = Some info \<longrightarrow>
   api repo_id = Some all_files \<longrightarrow>
   (\<forall>f \<in> set all_files. rfilename f \<noteq> file_path) \<longrightarrow>
     analyze_huggingface_url QM api ram vram url =
       Model_info (repo_id_of path_part) False # Model_info repo_id True #
       analyze_repository QM api ram vram path_part repo_id
     \<and> (\<not> str_in ''/tree/main/'' path_part \<longrightarrow> \<not> str_in ''GGUF'' (upper repo_id) \<longrightarrow>
          analyze_repository QM api ram vram path_part repo_id =
            Model_info repo_id True # plain_weights QM ram vram all_files repo_id None)"
proof (intro impI)
  assume url: "str_in ''huggingface.co/'' url"
    and path: "split_second ''huggingface.co/'' (rstrip_slash url) = Some path_part"
    and blob: "split_first ''/blob/main/'' path_part = Some (repo_id, file_path)"
    and first: "api (repo_id_of path_part) = Some info"
    and listing: "api repo_id = Some all_files"
    and missing: "\<forall>f \<in> set all_files. rfilename f \<noteq> file_path"
  from blob have "str_in ''/blob/main/'' path_part"
    using split_first_none_iff [of "''/blob/main/''" path_part] by simp
  moreover from missing have "find (\<lambda>f. rfilename f = file_path) all_files = None"
    by (simp add: find_none_iff)
  ultimately have run: "analyze_huggingface_url QM api ram vram url =
      Model_info (repo_id_of path_part) False # Model_info repo_id True #
      analyze_repository QM api ram vram path_part repo_id"
    using url path blob first listing by (simp add: analyze_huggingface_url_def)
  have "analyze_repository QM api ram vram path_part repo_id =
          Model_info repo_id True # plain_weights QM ram vram all_files repo_id None"
    if "\<not> str_in ''/tree/main/'' path_part" "\<not> str_in ''GGUF'' (upper repo_id)"
    using that listing by (simp add: analyze_repository_def)
  with run show "analyze_huggingface_url QM api ram vram url =
       Model_info (repo_id_of path_part) False # Model_info repo_id True #
       analyze_repository QM api ram vram path_part repo_id
     \<and> (\<not> str_in ''/tree/main/'' path_part \<longrightarrow> \<not> str_in ''GGUF'' (upper repo_id) \<longrightarrow>
          analyze_repository QM api ram vram path_part repo_id =
            Model_info repo_id True # plain_weights QM ram vram all_files repo_id None)"
    by blast
qed

theorem blob_missing_file_falls_through_witness:
  "analyze_huggingface_url [(''Q4_K'', 1.2)]
       (map_of [(''org/model'', [\<lparr>rfilename = ''model.safetensors'', size_b = 2 * 1024 ^ 3\<rparr>])])
       16 0 ''https://huggingface.co/org/model/blob/main/missing.bin''
     = Model_info (repo_id_of ''org/model/blob/main/missing.bin'') False #
       Model_info ''org/model'' True #
       analyze_repository [(''Q4_K'', 1.2)]
         (map_of [(''org/model'', [\<lparr>rfilename = ''model.safetensors'', size_b = 2 * 1024 ^ 3\<rparr>])])
         16 0 ''org/model/blob/main/missing.bin'' ''org/model''
   \<and> analyze_repository [(''Q4_K'', 1.2)]
         (map_of [(''org/model'', [\<lparr>rfilename = ''model.safetensors'', size_b = 2 * 1024 ^ 3\<rparr>])])
         16 0 ''org/model/blob/main/missing.bin'' ''org/model''
     = Model_info ''org/model'' True #
       plain_weights [(''Q4_K'', 1.2)] 16 0
         [\<lparr>rfilename = ''model.safetensors'', size_b = 2 * 1024 ^ 3\<rparr>] ''org/model'' None"
proof -
  let ?url = "''https://huggingface.co/org/model/blob/main/missing.bin''"
  let ?files = "[\<lparr>rfilename = ''model.safetensors'', size_b = 2 * 1024 ^ 3\<rparr>]"
  let ?api = "map_of [(''org/model'', ?files)]"
  have 1: "str_in ''huggingface.co/'' ?url"
    by simp
  have 2: "split_second ''huggingface.co/'' (rstrip_slash ?url)
             = Some ''org/model/blob/main/missing.bin''"
    by (simp add: split_second_def split_head_def rstrip_slash_def)
  have 3: "split_first ''/blob/main/'' ''org/model/blob/main/missing.bin''
             = Some (''org/model'', ''missing.bin'')"
    by simp
  have 4: "?api (repo_id_of ''org/model/blob/main/missing.bin'') = Some ?files"
    by (simp add: repo_id_of_def split_head_def)
  have 5: "?api ''org/model'' = Some ?files"
    by simp
  have 6: "\<forall>f \<in> set ?files. rfilename f \<noteq> ''missing.bin''"
    by simp
  have 7: "\<not> str_in ''/tree/main/'' ''org/model/blob/main/missing.bin''"
    by simp
  have 8: "\<not> str_in ''GGUF'' (upper ''org/model'')"
    by (simp add: upper_def upper_char_def)
  from blob_missing_file_falls_through
         [of ?url "''org/model/blob/main/missing.bin''" "''org/model''" "''missing.bin''"
             ?api ?files ?files "[(''Q4_K'', 1.2)]" 16 0]
       1 2 3 4 5 6 7 8
  show ?thesis by blast
qed

section \<open>The grouper on the example of three files\<close>

lemma upper_simps:
  "upper ''model-Q4_K_M-00001.gguf'' = ''MODEL-Q4_K_M-00001.GGUF''"
  "upper ''model-Q4_K_M-00002.gguf'' = ''MODEL-Q4_K_M-00002.GGUF''"
  "upper ''model-Q8_0.gguf'' = ''MODEL-Q8_0.GGUF''"
  by (simp_all add: upper_def upper_char_def)

text \<open>
  C2 as stated does not hold.  With the table whose keys are \<open>Q4_K_M\<close> and \<open>Q8_0\<close>, the
  two split files are grouped under \<open>Q4_K_M_M\<close>: the name contains \<open>_M\<close>, and the size
  variant is appended to the key even when the key already ends with it.  There is no
  group labelled \<open>Q4_K_M\<close>.
\<close>

theorem split_example_counterexample:
  "map fst (group_split_files [(''Q4_K_M'', 1.3), (''Q8_0'', 1.5)]
       [\<lparr>rfilename = ''model-Q4_K_M-00001.gguf'', size_b = 4 * 1024 ^ 3\<rparr>,
        \<lparr>rfilename = ''model-Q4_K_M-00002.gguf'', size_b = 4 * 1024 ^ 3\<rparr>,
        \<lparr>rfilename = ''model-Q8_0.gguf'', size_b = 9 * 1024 ^ 3\<rparr>])
     = [''Q4_K_M_M'', ''Q8_0'']
   \<and> map_of (group_split_files [(''Q4_K_M'', 1.3), (''Q8_0'', 1.5)]
       [\<lparr>rfilename = ''model-Q4_K_M-00001.gguf'', size_b = 4 * 1024 ^ 3\<rparr>,
        \<lparr>rfilename = ''model-Q4_K_M-00002.gguf'', size_b = 4 * 1024 ^ 3\<rparr>,
        \<lparr>rfilename = ''model-Q8_0.gguf'', size_b = 9 * 1024 ^ 3\<rparr>]) ''Q4_K_M'' = None"
  by (simp add: group_split_files_def group_file_def quant_type_of_def size_variant_of_def
        upper_def upper_char_def)

text \<open>
  C2, amended.  For the table whose keys are \<open>Q4_K_M\<close> and \<open>Q8_0\<close>, in either order and
  with any multipliers, the three files give exactly two groups: \<open>Q4_K_M_M\<close> with
  8 GB and the two split files, then \<open>Q8_0\<close> with 9 GB and one file.
\<close>

theorem split_example_groups:
  "T = [(''Q4_K_M'', m1), (''Q8_0'', m2)] \<or> T = [(''Q8_0'', m2), (''Q4_K_M'', m1)] \<Longrightarrow>
   group_split_files T
       [\<lparr>rfilename = ''model-Q4_K_M-00001.gguf'', size_b = 4 * 1024 ^ 3\<rparr>,
        \<lparr>rfilename = ''model-Q4_K_M-00002.gguf'', size_b = 4 * 1024 ^ 3\<rparr>,
        \<lparr>rfilename = ''model-Q8_0.gguf'', size_b = 9 * 1024 ^ 3\<rparr>]
     = [(''Q4_K_M_M'',
           \<lparr>size_g = 8 * 1024 ^ 3,
            files_g = [\<lparr>rfilename = ''model-Q4_K_M-00001.gguf'', size_b = 4 * 1024 ^ 3\<rparr>,
                       \<lparr>rfilename = ''model-Q4_K_M-00002.gguf'', size_b = 4 * 1024 ^ 3\<rparr>]\<rparr>),
        (''Q8_0'',
           \<lparr>size_g = 9 * 1024 ^ 3,
            files_g = [\<lparr>rfilename = ''model-Q8_0.gguf'', size_b = 9 * 1024 ^ 3\<rparr>]\<rparr>)]"
  by (auto simp add: group_split_files_def group_file_def quant_type_of_def size_variant_of_def
        upper_simps)

theorem split_example_groups_witness:
  "group_split_files [(''Q4_K_M'', 1.3), (''Q8_0'', 1.5)]
       [\<lparr>rfilename = ''model-Q4_K_M-00001.gguf'', size_b = 4 * 1024 ^ 3\<rparr>,
        \<lparr>rfilename = ''model-Q4_K_M-00002.gguf'', size_b = 4 * 1024 ^ 3\<rparr>,
        \<lparr>rfilename = ''model-Q8_0.gguf'', size_b = 9 * 1024 ^ 3\<rparr>]
     = [(''Q4_K_M_M'',
           \<lparr>size_g = 8 * 1024 ^ 3,
            files_g = [\<lparr>rfilename = ''model-Q4_K_M-00001.gguf'', size_b = 4 * 1024 ^ 3\<rparr>,
                       \<lparr>rfilename = ''model-Q4_K_M-00002.gguf'', size_b = 4 * 1024 ^ 3\<rparr>]\<rparr>),
        (''Q8_0'',
           \<lparr>size_g = 9 * 1024 ^ 3,
            files_g = [\<lparr>rfilename = ''model-Q8_0.gguf'', size_b = 9 * 1024 ^ 3\<rparr>]\<rparr>)]"
  using split_example_groups [of "[(''Q4_K_M'', 1.3), (''Q8_0'', 1.5)]" "1.3" "1.5"]
  by simp

section \<open>How a key is matched against a name\<close>

lemma quant_type_none_iff:
  "quant_type_of T u = None \<longleftrightarrow> (\<forall>(k, m) \<in> set T. \<not> str_in k u)"
proof -
  have "quant_type_of T u = None \<longleftrightarrow> find (\<lambda>(k, m). str_in k u) T = None"
    by (simp add: quant_type_of_def split: option.splits prod.splits)
  also have "\<dots> \<longleftrightarrow> (\<forall>(k, m) \<in> set T. \<not> str_in k u)"
    by (simp add: find_none_iff case_prod_beta)
  finally show ?thesis .
qed

lemma find_some_decomp:
  "find P xs = Some x \<Longrightarrow> \<exists>pre post. xs = pre @ x # post \<and> P x \<and> (\<forall>y \<in> set pre. \<not> P y)"
proof (induction xs)
  case Nil
  then show ?case by simp
next
  case (Cons a xs)
  show ?case
  proof (cases "P a")
    case True
    with Cons.prems have "a = x" by simp
    with True have "a # xs = [] @ x # xs \<and> P x \<and> (\<forall>y \<in> set []. \<not> P y)" by simp
    then show ?thesis by blast
  next
    case False
    with Cons obtain pre post where "xs = pre @ x # post" "P x" "\<forall>y \<in> set pre. \<not> P y"
      by auto
    with False have "a # xs = (a # pre) @ x # post \<and> P x \<and> (\<forall>y \<in> set (a # pre). \<not> P y)"
      by simp
    then show ?thesis by blast
  qed
qed




section \<open>Viable quantizations and the recommendation\<close>

text \<open>The tests on the text of the label decide its heading.\<close>

lemma markup_tests:
  "str_in ''Too large'' (label_markup p) \<longleftrightarrow> p = Too_large"
  "str_in ''GPU-Ready'' (label_markup p) \<longleftrightarrow> p = GPU_Ready"
  "str_in ''Will be slow'' (label_markup p) \<longleftrightarrow> p = Will_be_slow"
  "str_in ''Ready'' (label_markup p) \<longleftrightarrow> p = GPU_Ready \<or> p = Ready"
  by (cases p; simp)+

text \<open>\<open>min\<close> and \<open>max\<close> with a key return an element with the least, the greatest key.\<close>

lemma foldl_min_least:
  "foldl (\<lambda>best y. if key y < key best then y else best) b xs \<in> set (b # xs)
   \<and> (\<forall>y \<in> set (b # xs).
         (key (foldl (\<lambda>best y. if key y < key best then y else best) b xs) :: real) \<le> key y)"
proof (induction xs arbitrary: b)
  case Nil
  show ?case by simp
next
  case (Cons a xs)
  let ?b = "if key a < key b then a else b"
  from Cons.IH [of ?b] show ?case
    by (auto split: if_splits)
qed

lemma foldl_max_greatest:
  "foldl (\<lambda>best y. if key y > key best then y else best) b xs \<in> set (b # xs)
   \<and> (\<forall>y \<in> set (b # xs).
         key y \<le> (key (foldl (\<lambda>best y. if key y > key best then y else best) b xs) :: real))"
proof (induction xs arbitrary: b)
  case Nil
  show ?case by simp
next
  case (Cons a xs)
  let ?b = "if key a > key b then a else b"
  from Cons.IH [of ?b] show ?case
    by (auto split: if_splits)
qed

lemma min_by_least:
  assumes "xs \<noteq> []"
  obtains x where "min_by key xs = Some x" "x \<in> set xs" "\<forall>y \<in> set xs. key x \<le> key y"
proof (cases xs)
  case Nil
  with assms show ?thesis by simp
next
  case (Cons b ys)
  with foldl_min_least [of key b ys] that show ?thesis by simp
qed

lemma max_by_greatest:
  assumes "xs \<noteq> []"
  obtains x where "max_by key xs = Some x" "x \<in> set xs" "\<forall>y \<in> set xs. key y \<le> key x"
proof (cases xs)
  case Nil
  with assms show ?thesis by simp
next
  case (Cons b ys)
  with foldl_max_greatest [of key b ys] that show ?thesis by simp
qed

lemma recommended_of_cases:
  assumes "V \<noteq> []" and "\<forall>y \<in> set V. row_perf y \<noteq> Too_large"
  shows "\<exists>x \<in> set V. recommended_of V = Inr (fst x)
     \<and> ((\<forall>y \<in> set V. row_perf y = Will_be_slow) \<longrightarrow>
          (\<forall>y \<in> set V. row_size x \<le> row_size y))
     \<and> (\<not> (\<forall>y \<in> set V. row_perf y = Will_be_slow) \<longrightarrow>
          (\<exists>y \<in> set V. row_perf y = GPU_Ready) \<longrightarrow>
          row_perf x = GPU_Ready
          \<and> (\<forall>y \<in> set V. row_perf y = GPU_Ready \<longrightarrow> row_size y \<le> row_size x))
     \<and> (\<not> (\<forall>y \<in> set V. row_perf y = Will_be_slow) \<longrightarrow>
          \<not> (\<exists>y \<in> set V. row_perf y = GPU_Ready) \<longrightarrow>
          (\<exists>y \<in> set V. row_perf y = Ready) \<longrightarrow>
          row_perf x = Ready
          \<and> (\<forall>y \<in> set V. row_perf y = Ready \<longrightarrow> row_size y \<le> row_size x))
     \<and> (\<not> (\<forall>y \<in> set V. row_perf y = Will_be_slow) \<longrightarrow>
          \<not> (\<exists>y \<in> set V. row_perf y = GPU_Ready) \<longrightarrow>
          \<not> (\<exists>y \<in> set V. row_perf y = Ready) \<longrightarrow>
          row_perf x = Will_be_slow
          \<and> (\<forall>y \<in> set V. row_perf y = Will_be_slow \<longrightarrow> row_size x \<le> row_size y))"
proof -
  let ?gpu = "filter (\<lambda>x. row_perf x = GPU_Ready) V"
  let ?ready = "filter (\<lambda>x. row_perf x = Ready) V"
  let ?slow = "filter (\<lambda>x. row_perf x = Will_be_slow) V"
  have ready_test: "(p = GPU_Ready \<or> p = Ready) \<and> p \<noteq> GPU_Ready \<longleftrightarrow> p = Ready" for p
    by auto
  have rec: "recommended_of V =
      (case (if list_all (\<lambda>x. row_perf x = Will_be_slow) V then min_by row_size V
             else if ?gpu \<noteq> [] then max_by row_size ?gpu
             else if ?ready \<noteq> [] then max_by row_size ?ready
             else min_by row_size ?slow) of
         None \<Rightarrow> Inl ValueError
       | Some x \<Rightarrow> Inr (fst x))"
    by (simp add: recommended_of_def markup_tests ready_test Let_def)
  consider (slow) "\<forall>y \<in> set V. row_perf y = Will_be_slow"
    | (gpu) "\<not> (\<forall>y \<in> set V. row_perf y = Will_be_slow)" "\<exists>y \<in> set V. row_perf y = GPU_Ready"
    | (ready) "\<not> (\<forall>y \<in> set V. row_perf y = Will_be_slow)"
        "\<not> (\<exists>y \<in> set V. row_perf y = GPU_Ready)" "\<exists>y \<in> set V. row_perf y = Ready"
    | (none) "\<not> (\<forall>y \<in> set V. row_perf y = Will_be_slow)"
        "\<not> (\<exists>y \<in> set V. row_perf y = GPU_Ready)" "\<not> (\<exists>y \<in> set V. row_perf y = Ready)"
    by blast
  then show ?thesis
  proof cases
    case slow
    from min_by_least [OF assms(1), of row_size] obtain x
      where x: "min_by row_size V = Some x" "x \<in> set V" "\<forall>y \<in> set V. row_size x \<le> row_size y"
      by blast
    from slow x(1) have "recommended_of V = Inr (fst x)"
      by (simp add: rec list_all_iff)
    with slow x show ?thesis by blast
  next
    case gpu
    then have ne: "?gpu \<noteq> []" by (auto simp: filter_empty_conv)
    from max_by_greatest [OF ne, of row_size] obtain x
      where x: "max_by row_size ?gpu = Some x" "x \<in> set ?gpu"
        "\<forall>y \<in> set ?gpu. row_size y \<le> row_size x"
      by blast
    from gpu(1) ne x(1) have "recommended_of V = Inr (fst x)"
      by (auto simp: rec list_all_iff)
    moreover from x(2) have "x \<in> set V" "row_perf x = GPU_Ready" by auto
    moreover from x(3) have "\<forall>y \<in> set V. row_perf y = GPU_Ready \<longrightarrow> row_size y \<le> row_size x"
      by auto
    ultimately show ?thesis using gpu by blast
  next
    case ready
    then have ne: "?ready \<noteq> []" and no_gpu: "?gpu = []" by (auto simp: filter_empty_conv)
    from max_by_greatest [OF ne, of row_size] obtain x
      where x: "max_by row_size ?ready = Some x" "x \<in> set ?ready"
        "\<forall>y \<in> set ?ready. row_size y \<le> row_size x"
      by blast
    from ready(1) ne no_gpu x(1) have "recommended_of V = Inr (fst x)"
      by (auto simp: rec list_all_iff)
    moreover from x(2) have "x \<in> set V" "row_perf x = Ready" by auto
    moreover from x(3) have "\<forall>y \<in> set V. row_perf y = Ready \<longrightarrow> row_size y \<le> row_size x"
      by auto
    ultimately show ?thesis using ready by blast
  next
    case none
    from none(1) obtain y where "y \<in> set V" "row_perf y \<noteq> Will_be_slow" by blast
    with none(2,3) assms(2) have False by (cases "row_perf y") auto
    then show ?thesis ..
  qed
qed

text \<open>
  C6.  In the GGUF path the viable rows are the classified groups that are not
  Too-large, sorted by ascending size.  When there is a viable row, a quantization is
  recommended and it is the label of a viable row: one of least size when every viable
  row is Will-be-slow; otherwise a GPU-Ready row of greatest size among the GPU-Ready
  rows when there is one; otherwise a Ready row of greatest size among the Ready rows
  when there is one; otherwise a Will-be-slow row of least size among those.
\<close>

theorem gguf_viable_and_recommended:
  "V = viable_quants_of QM ram vram G \<Longrightarrow>
   set V = {x \<in> set (map (classify_group QM ram vram) G). row_perf x \<noteq> Too_large}
   \<and> sorted (map row_size V)
   \<and> (V \<noteq> [] \<longrightarrow>
       (\<exists>x \<in> set V. recommended_of V = Inr (fst x)
         \<and> ((\<forall>y \<in> set V. row_perf y = Will_be_slow) \<longrightarrow>
              (\<forall>y \<in> set V. row_size x \<le> row_size y))
         \<and> (\<not> (\<forall>y \<in> set V. row_perf y = Will_be_slow) \<longrightarrow>
              (\<exists>y \<in> set V. row_perf y = GPU_Ready) \<longrightarrow>
              row_perf x = GPU_Ready
              \<and> (\<forall>y \<in> set V. row_perf y = GPU_Ready \<longrightarrow> row_size y \<le> row_size x))
         \<and> (\<not> (\<forall>y \<in> set V. row_perf y = Will_be_slow) \<longrightarrow>
              \<not> (\<exists>y \<in> set V. row_perf y = GPU_Ready) \<longrightarrow>
              (\<exists>y \<in> set V. row_perf y = Ready) \<longrightarrow>
              row_perf x = Ready
              \<and> (\<forall>y \<in> set V. row_perf y = Ready \<longrightarrow> row_size y \<le> row_size x))
         \<and> (\<not> (\<forall>y \<in> set V. row_perf y = Will_be_slow) \<longrightarrow>
              \<not> (\<exists>y \<in> set V. row_perf y = GPU_Ready) \<longrightarrow>
              \<not> (\<exists>y \<in> set V. row_perf y = Ready) \<longrightarrow>
              row_perf x = Will_be_slow
              \<and> (\<forall>y \<in> set V. row_perf y = Will_be_slow \<longrightarrow> row_size x \<le> row_size y))))"
proof (intro conjI impI)
  assume V: "V = viable_quants_of QM ram vram G"
  show members: "set V = {x \<in> set (map (classify_group QM ram vram) G). row_perf x \<noteq> Too_large}"
    by (auto simp: V viable_quants_of_def markup_tests)
  show "sorted (map row_size V)"
    by (simp add: V viable_quants_of_def)
  assume "V \<noteq> []"
  moreover from members have "\<forall>y \<in> set V. row_perf y \<noteq> Too_large" by simp
  ultimately show "\<exists>x \<in> set V. recommended_of V = Inr (fst x)
         \<and> ((\<forall>y \<in> set V. row_perf y = Will_be_slow) \<longrightarrow>
              (\<forall>y \<in> set V. row_size x \<le> row_size y))
         \<and> (\<not> (\<forall>y \<in> set V. row_perf y = Will_be_slow) \<longrightarrow>
              (\<exists>y \<in> set V. row_perf y = GPU_Ready) \<longrightarrow>
              row_perf x = GPU_Ready
              \<and> (\<forall>y \<in> set V. row_perf y = GPU_Ready \<longrightarrow> row_size y \<le> row_size x))
         \<and> (\<not> (\<forall>y \<in> set V. row_perf y = Will_be_slow) \<longrightarrow>
              \<not> (\<exists>y \<in> set V. row_perf y = GPU_Ready) \<longrightarrow>
              (\<exists>y \<in> set V. row_perf y = Ready) \<longrightarrow>
              row_perf x = Ready
              \<and> (\<forall>y \<in> set V. row_perf y = Ready \<longrightarrow> row_size y \<le> row_size x))
         \<and> (\<not> (\<forall>y \<in> set V. row_perf y = Will_be_slow) \<longrightarrow>
              \<not> (\<exists>y \<in> set V. row_perf y = GPU_Ready) \<longrightarrow>
              \<not> (\<exists>y \<in> set V. row_perf y = Ready) \<longrightarrow>
              row_perf x = Will_be_slow
              \<and> (\<forall>y \<in> set V. row_perf y = Will_be_slow \<longrightarrow> row_size x \<le> row_size y))"
    by (rule recommended_of_cases)
qed

theorem gguf_viable_and_recommended_witness:
  "viable_quants_of [(''Q4_K'', 1.2), (''Q8_0'', 1.5)] 16 0
       [(''Q8_0'', \<lparr>size_g = 9 * 1024 ^ 3, files_g = []\<rparr>),
        (''F16'', \<lparr>size_g = 20 * 1024 ^ 3, files_g = []\<rparr>),
        (''Q4_K_M'', \<lparr>size_g = 5 * 1024 ^ 3, files_g = []\<rparr>)]
     = [(''Q4_K_M'', 5, Ready), (''Q8_0'', 9, Will_be_slow)]
   \<and> recommended_of [(''Q4_K_M'', 5, Ready), (''Q8_0'', 9, Will_be_slow)] = Inr ''Q4_K_M''"
proof -
  let ?V = "[(''Q4_K_M'', 5::real, Ready), (''Q8_0'', 9, Will_be_slow)]"
  have V: "viable_quants_of [(''Q4_K'', 1.2), (''Q8_0'', 1.5)] 16 0
       [(''Q8_0'', \<lparr>size_g = 9 * 1024 ^ 3, files_g = []\<rparr>),
        (''F16'', \<lparr>size_g = 20 * 1024 ^ 3, files_g = []\<rparr>),
        (''Q4_K_M'', \<lparr>size_g = 5 * 1024 ^ 3, files_g = []\<rparr>)] = ?V"
    by (simp add: viable_quants_of_def classify_group_def estimate_ram_requirement_def
          get_performance_label_def row_size_def row_perf_def upper_def upper_char_def)
  have "?V \<noteq> []" "\<not> (\<forall>y \<in> set ?V. row_perf y = Will_be_slow)"
    "\<not> (\<exists>y \<in> set ?V. row_perf y = GPU_Ready)" "\<exists>y \<in> set ?V. row_perf y = Ready"
    by (simp_all add: row_perf_def)
  with gguf_viable_and_recommended [OF V [symmetric]]
  obtain x where "x \<in> set ?V" "recommended_of ?V = Inr (fst x)" "row_perf x = Ready"
    by blast
  then have "recommended_of ?V = Inr ''Q4_K_M''"
    by (auto simp: row_perf_def)
  with V show ?thesis by simp
qed

section \<open>What the grouper builds\<close>

text \<open>One round of the loop, by the label the file is stored under.\<close>

lemma group_file_skipped:
  "kept_label QM f = None \<Longrightarrow> group_file QM G f = G"
  by (auto simp: kept_label_def group_file_def split: option.splits if_splits)

lemma group_file_kept:
  "kept_label QM f = Some q \<Longrightarrow>
   group_file QM G f =
     map (\<lambda>(k, g). if k = q
                    then (k, \<lparr>size_g = size_g g + of_int (size_b f), files_g = files_g g @ [f]\<rparr>)
                    else (k, g))
         (if q \<notin> set (map fst G) then G @ [(q, \<lparr>size_g = 0, files_g = []\<rparr>)] else G)"
  by (auto simp: kept_label_def group_file_def Let_def split: option.splits if_splits)

lemma first_seen_snoc:
  "first_seen (xs @ [x]) = (if x \<in> set xs then first_seen xs else first_seen xs @ [x])"
  by (simp add: first_seen_def)

lemma set_first_seen [simp]: "set (first_seen xs) = set xs"
  by (simp add: first_seen_def)

lemma distinct_first_seen [simp]: "distinct (first_seen xs)"
  by (simp add: first_seen_def)

lemma map_filter_snoc:
  "List.map_filter h (xs @ [x]) =
     (case h x of None \<Rightarrow> List.map_filter h xs | Some y \<Rightarrow> List.map_filter h xs @ [y])"
  by (simp add: List.map_filter_def split: option.splits)

lemma set_map_filter: "set (List.map_filter h xs) = {y. \<exists>x \<in> set xs. h x = Some y}"
  by (induction xs) (auto split: option.splits)

text \<open>
  The dictionary after the loop: one entry for each label in the order of first
  occurrence, holding the files with that label in input order and the sum of their
  sizes.
\<close>

lemma group_split_files_spec:
  "group_split_files QM fs =
     map (\<lambda>q. (q, group_of QM fs q)) (first_seen (List.map_filter (kept_label QM) fs))"
proof (induction fs rule: rev_induct)
  case Nil
  show ?case by (simp add: group_split_files_def first_seen_def)
next
  case (snoc f fs)
  let ?keys = "first_seen (List.map_filter (kept_label QM) fs)"
  have step: "group_split_files QM (fs @ [f]) = group_file QM (group_split_files QM fs) f"
    by (simp add: group_split_files_def)
  show ?case
  proof (cases "kept_label QM f")
    case None
    then have "group_of QM (fs @ [f]) = group_of QM fs"
      by (simp add: group_of_def members_def fun_eq_iff)
    with None snoc.IH show ?thesis
      by (simp add: step group_file_skipped map_filter_snoc)
  next
    case (Some q)
    have fresh: "group_of QM fs q = \<lparr>size_g = 0, files_g = []\<rparr>" if "q \<notin> set ?keys"
    proof -
      from that have "\<forall>x \<in> set fs. kept_label QM x \<noteq> Some q"
        by (auto simp: set_map_filter)
      then have "members QM fs q = []"
        by (simp add: members_def filter_empty_conv)
      then show ?thesis by (simp add: group_of_def)
    qed
    have upd: "group_of QM (fs @ [f]) k =
        (if k = q
         then \<lparr>size_g = size_g (group_of QM fs k) + of_int (size_b f),
               files_g = files_g (group_of QM fs k) @ [f]\<rparr>
         else group_of QM fs k)" for k
      using Some by (auto simp: group_of_def members_def)
    have keys: "first_seen (List.map_filter (kept_label QM) (fs @ [f])) =
        (if q \<in> set ?keys then ?keys else ?keys @ [q])"
      using Some by (simp add: map_filter_snoc first_seen_snoc)
    have "group_file QM (map (\<lambda>q. (q, group_of QM fs q)) ?keys) f =
        map (\<lambda>k. (k, group_of QM (fs @ [f]) k))
          (if q \<in> set ?keys then ?keys else ?keys @ [q])"
      using fresh by (simp add: group_file_kept [OF Some] comp_def upd)
    with snoc.IH show ?thesis
      by (simp only: step keys)
  qed
qed

lemma kept_label_matches:
  "kept_label QM f = Some q \<Longrightarrow> \<exists>(k, m) \<in> set QM. str_in k (upper (rfilename f))"
proof -
  assume "kept_label QM f = Some q"
  then have "quant_type_of QM (upper (rfilename f)) \<noteq> None"
    by (auto simp: kept_label_def split: option.splits)
  then show ?thesis
    by (auto simp: quant_type_none_iff)
qed

lemma quant_type_first_key:
  assumes "QM = pre @ (k, m) # post"
    and "\<forall>(k', m') \<in> set pre. \<not> str_in k' u" and "str_in k u"
  shows "quant_type_of QM u = Some (k @ size_variant_of u)"
proof -
  have "find (\<lambda>(base_quant, mult). str_in base_quant u) QM = Some (k, m)"
    unfolding assms(1) using assms(2,3) by (intro find_split_first) auto
  then show ?thesis by (simp add: quant_type_of_def)
qed

lemma spec_filter_matched:
  assumes "\<And>f. kept_label QM f \<noteq> None \<Longrightarrow> P f"
  shows "List.map_filter (kept_label QM) (filter P fs) = List.map_filter (kept_label QM) fs"
    and "members QM (filter P fs) q = members QM fs q"
proof -
  have "filter (\<lambda>x. kept_label QM x \<noteq> None) (filter P fs)
          = filter (\<lambda>x. kept_label QM x \<noteq> None) fs"
    using assms by (auto intro: filter_cong)
  then show "List.map_filter (kept_label QM) (filter P fs) = List.map_filter (kept_label QM) fs"
    by (simp add: List.map_filter_def)
  show "members QM (filter P fs) q = members QM fs q"
    unfolding members_def using assms by (auto intro: filter_cong)
qed

text \<open>
  C7.  A file whose uppercased name contains no key of the table has no effect on the
  result (the grouper returns the same dictionary without it), and every member of
  every group has a name that contains some key.  For a file whose name contains a
  key, the first such key in the table's order is the base of its label: the label is
  that key followed by the size variant, and, the label being non-empty, the file is
  a member of the group with that label.  The keys of the result are the labels under
  which files are stored, in the order of their first occurrence in the input.
\<close>

theorem grouper_unmatched_first_key_order:
  "group_split_files QM files =
     group_split_files QM (filter (\<lambda>f. \<exists>(k, m) \<in> set QM. str_in k (upper (rfilename f))) files)
   \<and> (\<forall>(q, g) \<in> set (group_split_files QM files). \<forall>f \<in> set (files_g g).
         \<exists>(k, m) \<in> set QM. str_in k (upper (rfilename f)))
   \<and> (QM = pre @ (k, m) # post \<longrightarrow>
       (\<forall>(k', m') \<in> set pre. \<not> str_in k' (upper (rfilename f))) \<longrightarrow>
       str_in k (upper (rfilename f)) \<longrightarrow>
         quant_type_of QM (upper (rfilename f)) = Some (k @ size_variant_of (upper (rfilename f)))
         \<and> (f \<in> set files \<longrightarrow> k @ size_variant_of (upper (rfilename f)) \<noteq> [] \<longrightarrow>
              (\<exists>g. (k @ size_variant_of (upper (rfilename f)), g) \<in> set (group_split_files QM files)
                   \<and> f \<in> set (files_g g))))
   \<and> map fst (group_split_files QM files)
       = rev (remdups (rev (List.map_filter (kept_label QM) files)))"
proof (intro conjI impI)
  let ?P = "\<lambda>f. \<exists>(k, m) \<in> set QM. str_in k (upper (rfilename f))"
  have P: "?P f" if "kept_label QM f \<noteq> None" for f
    using that kept_label_matches [of QM f] by auto
  show "group_split_files QM files = group_split_files QM (filter ?P files)"
    by (simp add: group_split_files_spec group_of_def spec_filter_matched [of QM ?P, OF P])
  show "\<forall>(q, g) \<in> set (group_split_files QM files). \<forall>f \<in> set (files_g g). ?P f"
    by (auto simp: group_split_files_spec group_of_def members_def dest: kept_label_matches)
  show "map fst (group_split_files QM files)
       = rev (remdups (rev (List.map_filter (kept_label QM) files)))"
    by (simp add: group_split_files_spec first_seen_def comp_def)
next
  let ?u = "upper (rfilename f)"
  assume QM: "QM = pre @ (k, m) # post"
    and pre: "\<forall>(k', m') \<in> set pre. \<not> str_in k' ?u" and k: "str_in k ?u"
  then show label: "quant_type_of QM ?u = Some (k @ size_variant_of ?u)"
    by (rule quant_type_first_key)
  assume "f \<in> set files" and "k @ size_variant_of ?u \<noteq> []"
  with label have kept: "kept_label QM f = Some (k @ size_variant_of ?u)"
    by (simp add: kept_label_def)
  with \<open>f \<in> set files\<close>
  have "k @ size_variant_of ?u \<in> set (first_seen (List.map_filter (kept_label QM) files))"
    by (auto simp: set_map_filter)
  then have "(k @ size_variant_of ?u, group_of QM files (k @ size_variant_of ?u))
      \<in> set (group_split_files QM files)"
    by (auto simp: group_split_files_spec)
  moreover from kept \<open>f \<in> set files\<close>
  have "f \<in> set (files_g (group_of QM files (k @ size_variant_of ?u)))"
    by (simp add: group_of_def members_def)
  ultimately show "\<exists>g. (k @ size_variant_of ?u, g) \<in> set (group_split_files QM files)
                   \<and> f \<in> set (files_g g)"
    by blast
qed

theorem grouper_unmatched_first_key_order_witness:
  "group_split_files [(''Q4_K'', 1.2), (''Q8_0'', 1.5)]
       [\<lparr>rfilename = ''model-q8_0.gguf'', size_b = 9\<rparr>,
        \<lparr>rfilename = ''notes.gguf'', size_b = 1\<rparr>,
        \<lparr>rfilename = ''model-q4_k_m.gguf'', size_b = 5\<rparr>]
     = group_split_files [(''Q4_K'', 1.2), (''Q8_0'', 1.5)]
       [\<lparr>rfilename = ''model-q8_0.gguf'', size_b = 9\<rparr>,
        \<lparr>rfilename = ''model-q4_k_m.gguf'', size_b = 5\<rparr>]
   \<and> quant_type_of [(''Q4_K'', 1.2), (''Q8_0'', 1.5)] (upper ''model-q8_0.gguf'') = Some ''Q8_0''
   \<and> map fst (group_split_files [(''Q4_K'', 1.2), (''Q8_0'', 1.5)]
       [\<lparr>rfilename = ''model-q8_0.gguf'', size_b = 9\<rparr>,
        \<lparr>rfilename = ''notes.gguf'', size_b = 1\<rparr>,
        \<lparr>rfilename = ''model-q4_k_m.gguf'', size_b = 5\<rparr>])
     = [''Q8_0'', ''Q4_K_M'']"
proof -
  let ?QM = "[(''Q4_K'', 1.2::real), (''Q8_0'', 1.5)]"
  let ?f1 = "\<lparr>rfilename = ''model-q8_0.gguf'', size_b = 9\<rparr>"
  let ?f2 = "\<lparr>rfilename = ''notes.gguf'', size_b = 1\<rparr>"
  let ?f3 = "\<lparr>rfilename = ''model-q4_k_m.gguf'', size_b = 5\<rparr>"
  have up: "upper ''model-q8_0.gguf'' = ''MODEL-Q8_0.GGUF''"
    "upper ''notes.gguf'' = ''NOTES.GGUF''"
    "upper ''model-q4_k_m.gguf'' = ''MODEL-Q4_K_M.GGUF''"
    by (simp_all add: upper_def upper_char_def)
  note inst = grouper_unmatched_first_key_order
               [of ?QM "[?f1, ?f2, ?f3]" "[(''Q4_K'', 1.2)]" "''Q8_0''" "1.5" "[]" ?f1]
  have flt: "filter (\<lambda>f. \<exists>(k, m) \<in> set ?QM. str_in k (upper (rfilename f))) [?f1, ?f2, ?f3]
      = [?f1, ?f3]"
    by (simp add: up)
  have lbl: "List.map_filter (kept_label ?QM) [?f1, ?f2, ?f3] = [''Q8_0'', ''Q4_K_M'']"
    by (simp add: kept_label_def quant_type_of_def size_variant_of_def up)
  have sv: "size_variant_of ''MODEL-Q8_0.GGUF'' = []"
    by (simp add: size_variant_of_def)
  have pre: "\<forall>(k', m') \<in> set [(''Q4_K'', 1.2::real)]. \<not> str_in k' (upper (rfilename ?f1))"
    and hit: "str_in ''Q8_0'' (upper (rfilename ?f1))"
    by (simp_all add: up)
  have eq: "?QM = [(''Q4_K'', 1.2)] @ (''Q8_0'', 1.5) # []"
    by simp
  from inst [THEN conjunct1]
  have "group_split_files ?QM [?f1, ?f2, ?f3] = group_split_files ?QM [?f1, ?f3]"
    by (simp only: flt)
  moreover from inst [THEN conjunct2, THEN conjunct2, THEN conjunct1,
             THEN mp, OF eq, THEN mp, OF pre, THEN mp, OF hit, THEN conjunct1]
  have "quant_type_of ?QM (upper ''model-q8_0.gguf'') = Some ''Q8_0''"
    by (simp add: up sv)
  moreover from inst [THEN conjunct2, THEN conjunct2, THEN conjunct2]
  have "map fst (group_split_files ?QM [?f1, ?f2, ?f3]) = [''Q8_0'', ''Q4_K_M'']"
    by (simp only: lbl) simp
  ultimately show ?thesis by blast
qed

section \<open>The groups partition the stored files\<close>

text \<open>
  C10 as stated does not hold.  The truth test \<open>if quant_type\<close> fails on the empty
  string as it does on \<open>None\<close>: with the empty string as a key of the table, a file
  whose name has no size variant matches that key and is stored in no group.
\<close>

theorem empty_key_counterexample:
  "str_in '''' (upper ''model.gguf'')
   \<and> group_split_files [('''', 1)] [\<lparr>rfilename = ''model.gguf'', size_b = 1024 ^ 3\<rparr>] = []"
  by (simp add: group_split_files_def group_file_def quant_type_of_def size_variant_of_def
        upper_def upper_char_def)

lemma sum_list_delta:
  "distinct ks \<Longrightarrow>
   sum_list (map (\<lambda>k. if k = q then (a::real) else 0) ks) = (if q \<in> set ks then a else 0)"
  by (induction ks) auto

lemma sum_groups_members:
  assumes "distinct ks"
  shows "sum_list (map (\<lambda>q. sum_list (map (\<lambda>f. real_of_int (size_b f)) (members QM fs q))) ks)
       = sum_list (map (\<lambda>f. real_of_int (size_b f))
           (filter (\<lambda>f. \<exists>q \<in> set ks. kept_label QM f = Some q) fs))"
proof (induction fs)
  case Nil
  show ?case by (simp add: members_def)
next
  case (Cons f fs)
  have "sum_list (map (\<lambda>q. sum_list (map (\<lambda>f. real_of_int (size_b f)) (members QM (f # fs) q))) ks)
      = sum_list (map (\<lambda>q. (if kept_label QM f = Some q then real_of_int (size_b f) else 0)
          + sum_list (map (\<lambda>f. real_of_int (size_b f)) (members QM fs q))) ks)"
    by (intro arg_cong [where f = sum_list] map_cong) (auto simp: members_def)
  also have "\<dots> = sum_list (map (\<lambda>q. if kept_label QM f = Some q then real_of_int (size_b f) else 0) ks)
      + sum_list (map (\<lambda>q. sum_list (map (\<lambda>f. real_of_int (size_b f)) (members QM fs q))) ks)"
    by (simp add: sum_list_addf)
  also have "sum_list (map (\<lambda>q. if kept_label QM f = Some q then real_of_int (size_b f) else 0) ks)
      = (if \<exists>q \<in> set ks. kept_label QM f = Some q then real_of_int (size_b f) else 0)"
  proof (cases "kept_label QM f")
    case None
    then show ?thesis by simp
  next
    case (Some q0)
    have "(\<lambda>q. if Some q0 = Some q then real_of_int (size_b f) else 0)
        = (\<lambda>q. if q = q0 then real_of_int (size_b f) else 0)"
      by auto
    with Some sum_list_delta [OF assms, of q0 "real_of_int (size_b f)"] show ?thesis
      by auto
  qed
  finally show ?case
    using Cons.IH by simp
qed

lemma kept_label_nonempty_keys:
  assumes "[] \<notin> fst ` set QM"
  shows "kept_label QM f \<noteq> None \<longleftrightarrow> (\<exists>(k, m) \<in> set QM. str_in k (upper (rfilename f)))"
proof
  assume "kept_label QM f \<noteq> None"
  then show "\<exists>(k, m) \<in> set QM. str_in k (upper (rfilename f))"
    using kept_label_matches [of QM f] by auto
next
  let ?u = "upper (rfilename f)"
  assume "\<exists>(k, m) \<in> set QM. str_in k ?u"
  then have "find (\<lambda>(k, m). str_in k ?u) QM \<noteq> None"
    by (auto simp: find_none_iff)
  then obtain k m where found: "find (\<lambda>(k, m). str_in k ?u) QM = Some (k, m)"
    by auto
  from find_some_decomp [OF this] have "(k, m) \<in> set QM" by auto
  with assms have "k \<noteq> []" by force
  with found show "kept_label QM f \<noteq> None"
    by (simp add: kept_label_def quant_type_of_def)
qed

text \<open>
  C10, amended.  The grouper partitions the files whose derived label is not empty:
  each group holds exactly the input files whose label is the key of the group, in
  input order, and its size is the sum of their sizes; the keys are distinct and the
  label of every such file is a key, so each of them is in exactly one group; the sum
  of the sizes of all groups is the total size of these files.  When no key of the
  table is the empty string, these files are exactly the files whose uppercased name
  contains a key of the table.
\<close>

theorem grouper_partitions_kept_files:
  "(\<forall>(q, g) \<in> set (group_split_files QM files).
       files_g g = filter (\<lambda>f. kept_label QM f = Some q) files
       \<and> size_g g = sum_list (map (\<lambda>f. real_of_int (size_b f)) (files_g g)))
   \<and> distinct (map fst (group_split_files QM files))
   \<and> (\<forall>f \<in> set files. \<forall>q. kept_label QM f = Some q \<longrightarrow>
         q \<in> set (map fst (group_split_files QM files)))
   \<and> sum_list (map (\<lambda>(q, g). size_g g) (group_split_files QM files))
       = sum_list (map (\<lambda>f. real_of_int (size_b f))
           (filter (\<lambda>f. kept_label QM f \<noteq> None) files))
   \<and> ([] \<notin> fst ` set QM \<longrightarrow>
       (\<forall>f. kept_label QM f \<noteq> None
          \<longleftrightarrow> (\<exists>(k, m) \<in> set QM. str_in k (upper (rfilename f)))))"
proof (intro conjI impI allI)
  let ?keys = "first_seen (List.map_filter (kept_label QM) files)"
  show "\<forall>(q, g) \<in> set (group_split_files QM files).
       files_g g = filter (\<lambda>f. kept_label QM f = Some q) files
       \<and> size_g g = sum_list (map (\<lambda>f. real_of_int (size_b f)) (files_g g))"
    by (auto simp: group_split_files_spec group_of_def members_def)
  show "distinct (map fst (group_split_files QM files))"
    by (simp add: group_split_files_spec comp_def)
  show "\<forall>f \<in> set files. \<forall>q. kept_label QM f = Some q \<longrightarrow>
         q \<in> set (map fst (group_split_files QM files))"
  proof (intro ballI allI impI)
    fix f q
    assume "f \<in> set files" and "kept_label QM f = Some q"
    then have "q \<in> set (List.map_filter (kept_label QM) files)"
      unfolding set_map_filter by blast
    then show "q \<in> set (map fst (group_split_files QM files))"
      by (simp add: group_split_files_spec comp_def)
  qed
  have "sum_list (map (\<lambda>(q, g). size_g g) (group_split_files QM files))
      = sum_list (map (\<lambda>q. sum_list (map (\<lambda>f. real_of_int (size_b f)) (members QM files q)))
          ?keys)"
    by (simp add: group_split_files_spec group_of_def comp_def)
  also have "\<dots> = sum_list (map (\<lambda>f. real_of_int (size_b f))
      (filter (\<lambda>f. \<exists>q \<in> set ?keys. kept_label QM f = Some q) files))"
    by (rule sum_groups_members) simp
  also have "filter (\<lambda>f. \<exists>q \<in> set ?keys. kept_label QM f = Some q) files
      = filter (\<lambda>f. kept_label QM f \<noteq> None) files"
    by (rule filter_cong) (auto simp: set_map_filter)
  finally show "sum_list (map (\<lambda>(q, g). size_g g) (group_split_files QM files))
       = sum_list (map (\<lambda>f. real_of_int (size_b f))
           (filter (\<lambda>f. kept_label QM f \<noteq> None) files))" .
next
  fix f
  assume "[] \<notin> fst ` set QM"
  then show "kept_label QM f \<noteq> None
          \<longleftrightarrow> (\<exists>(k, m) \<in> set QM. str_in k (upper (rfilename f)))"
    by (rule kept_label_nonempty_keys)
qed

theorem grouper_partitions_kept_files_witness:
  "(\<exists>g. (''Q8_0'', g) \<in> set (group_split_files [(''Q4_K'', 1.2), (''Q8_0'', 1.5)]
             [\<lparr>rfilename = ''model-q8_0-1.gguf'', size_b = 9\<rparr>,
              \<lparr>rfilename = ''notes.gguf'', size_b = 1\<rparr>,
              \<lparr>rfilename = ''model-q4_k_m.gguf'', size_b = 5\<rparr>,
              \<lparr>rfilename = ''model-q8_0-2.gguf'', size_b = 3\<rparr>])
        \<and> files_g g = [\<lparr>rfilename = ''model-q8_0-1.gguf'', size_b = 9\<rparr>,
                        \<lparr>rfilename = ''model-q8_0-2.gguf'', size_b = 3\<rparr>]
        \<and> size_g g = 12)
   \<and> distinct (map fst (group_split_files [(''Q4_K'', 1.2), (''Q8_0'', 1.5)]
             [\<lparr>rfilename = ''model-q8_0-1.gguf'', size_b = 9\<rparr>,
              \<lparr>rfilename = ''notes.gguf'', size_b = 1\<rparr>,
              \<lparr>rfilename = ''model-q4_k_m.gguf'', size_b = 5\<rparr>,
              \<lparr>rfilename = ''model-q8_0-2.gguf'', size_b = 3\<rparr>]))
   \<and> sum_list (map (\<lambda>(q, g). size_g g) (group_split_files [(''Q4_K'', 1.2), (''Q8_0'', 1.5)]
             [\<lparr>rfilename = ''model-q8_0-1.gguf'', size_b = 9\<rparr>,
              \<lparr>rfilename = ''notes.gguf'', size_b = 1\<rparr>,
              \<lparr>rfilename = ''model-q4_k_m.gguf'', size_b = 5\<rparr>,
              \<lparr>rfilename = ''model-q8_0-2.gguf'', size_b = 3\<rparr>])) = 17
   \<and> kept_label [(''Q4_K'', 1.2), (''Q8_0'', 1.5)]
         \<lparr>rfilename = ''model-q4_k_m.gguf'', size_b = 5\<rparr> \<noteq> None"
proof -
  let ?QM = "[(''Q4_K'', 1.2::real), (''Q8_0'', 1.5)]"
  let ?f1 = "\<lparr>rfilename = ''model-q8_0-1.gguf'', size_b = 9\<rparr>"
  let ?f2 = "\<lparr>rfilename = ''notes.gguf'', size_b = 1\<rparr>"
  let ?f3 = "\<lparr>rfilename = ''model-q4_k_m.gguf'', size_b = 5\<rparr>"
  let ?f4 = "\<lparr>rfilename = ''model-q8_0-2.gguf'', size_b = 3\<rparr>"
  let ?G = "group_split_files ?QM [?f1, ?f2, ?f3, ?f4]"
  have up: "upper ''model-q8_0-1.gguf'' = ''MODEL-Q8_0-1.GGUF''"
    "upper ''notes.gguf'' = ''NOTES.GGUF''"
    "upper ''model-q4_k_m.gguf'' = ''MODEL-Q4_K_M.GGUF''"
    "upper ''model-q8_0-2.gguf'' = ''MODEL-Q8_0-2.GGUF''"
    by (simp_all add: upper_def upper_char_def)
  have lbl: "kept_label ?QM ?f1 = Some ''Q8_0''" "kept_label ?QM ?f2 = None"
    "kept_label ?QM ?f3 = Some ''Q4_K_M''" "kept_label ?QM ?f4 = Some ''Q8_0''"
    by (simp_all add: kept_label_def quant_type_of_def size_variant_of_def up)
  note inst = grouper_partitions_kept_files [of ?QM "[?f1, ?f2, ?f3, ?f4]"]
  note groups = inst [THEN conjunct1]
  note dist = inst [THEN conjunct2, THEN conjunct1]
  note covered = inst [THEN conjunct2, THEN conjunct2, THEN conjunct1]
  note total = inst [THEN conjunct2, THEN conjunct2, THEN conjunct2, THEN conjunct1]
  note matched = inst [THEN conjunct2, THEN conjunct2, THEN conjunct2, THEN conjunct2]
  have "?f1 \<in> set [?f1, ?f2, ?f3, ?f4]" by simp
  with covered lbl(1) have "''Q8_0'' \<in> set (map fst ?G)" by blast
  then obtain g where g: "(''Q8_0'', g) \<in> set ?G" by auto
  with groups have "files_g g = filter (\<lambda>f. kept_label ?QM f = Some ''Q8_0'') [?f1, ?f2, ?f3, ?f4]"
    and sz: "size_g g = sum_list (map (\<lambda>f. real_of_int (size_b f)) (files_g g))"
    by blast+
  then have fs: "files_g g = [?f1, ?f4]"
    using lbl by simp
  with sz have "size_g g = 12" by simp
  with g fs have 1: "\<exists>g. (''Q8_0'', g) \<in> set ?G \<and> files_g g = [?f1, ?f4] \<and> size_g g = 12"
    by blast
  from total have 3: "sum_list (map (\<lambda>(q, g). size_g g) ?G) = 17"
    using lbl by simp
  have "[] \<notin> fst ` set ?QM" by simp
  moreover have "\<exists>(k, m) \<in> set ?QM. str_in k (upper (rfilename ?f3))"
    by (simp add: up)
  ultimately have 4: "kept_label ?QM ?f3 \<noteq> None"
    using matched by blast
  from 1 dist 3 4 show ?thesis by blast
qed

end
